theory Spec2Isabelle
  imports Complex_Main "HOL-Library.Multiset" "HOL-Library.AList"
begin

section \<open>Values of the JavaScript program\<close>

text \<open>
  The service is a set of Express handlers over an ORM. Response bodies and
  request bodies are JSON values; a JavaScript object literal is an
  association list in source order. Numbers are mathematical integers: the
  model is exact for every Number inside the safe integer range
  (magnitude at most \<open>2^53\<close>), which covers ids, row counts and every
  page or limit a request can sensibly carry. Strings are lists of 8-bit
  characters, so the model speaks of ASCII input.
\<close>

datatype json =
    JNull
  | JBool bool
  | JNum int
  | JStr string
  | JArr "json list"
  | JObj "(string \<times> json) list"

type_synonym obj = "(string \<times> json) list"

text \<open>The keys of a JSON object (no keys for any other value).\<close>

fun keys :: "json \<Rightarrow> string list" where
  "keys (JObj kvs) = map fst kvs"
| "keys _ = []"

text \<open>A thrown \<open>Error\<close>; the handlers only ever read \<open>err.message\<close>.\<close>

datatype js_error = Error (message: string)

section \<open>Library functions of the language used by the handlers\<close>

subsection \<open>\<open>parseInt\<close> with no radix argument\<close>

text \<open>
  ECMAScript \<open>parseInt(string)\<close>: skip leading white space, read an optional
  sign, switch to radix 16 after a \<open>0x\<close> or \<open>0X\<close> prefix, take the longest
  run of digits of the radix, and return \<open>NaN\<close> when the run is empty.
  \<open>None\<close> is \<open>NaN\<close>. Trailing characters are ignored, as the language
  specifies.
\<close>

definition isWhiteSpace :: "char \<Rightarrow> bool" where
  "isWhiteSpace c = (c \<in> set [CHR 0x09, CHR 0x0A, CHR 0x0B, CHR 0x0C, CHR 0x0D, CHR 0x20])"

definition digitValue :: "char \<Rightarrow> nat option" where
  "digitValue c =
     (let n = (of_char c :: nat) in
      if 48 \<le> n \<and> n \<le> 57 then Some (n - 48)
      else if 97 \<le> n \<and> n \<le> 122 then Some (n - 87)
      else if 65 \<le> n \<and> n \<le> 90 then Some (n - 55)
      else None)"

definition isRadixDigit :: "nat \<Rightarrow> char \<Rightarrow> bool" where
  "isRadixDigit R c = (case digitValue c of None \<Rightarrow> False | Some d \<Rightarrow> d < R)"

definition digitsValue :: "nat \<Rightarrow> string \<Rightarrow> int" where
  "digitsValue R Z =
     foldl (\<lambda>acc c. acc * int R + (case digitValue c of None \<Rightarrow> 0 | Some d \<Rightarrow> int d)) 0 Z"

definition parseInt :: "string \<Rightarrow> int option" where
  "parseInt inputString =
     (let S0 = dropWhile isWhiteSpace inputString;
          sign = (if take 1 S0 = ''-'' then - 1 else 1 :: int);
          S1 = (if take 1 S0 = ''+'' \<or> take 1 S0 = ''-'' then drop 1 S0 else S0);
          hex = (take 2 S1 = ''0x'' \<or> take 2 S1 = ''0X'');
          R = (if hex then 16 else 10 :: nat);
          S2 = (if hex then drop 2 S1 else S1);
          Z = takeWhile (isRadixDigit R) S2
      in if Z = [] then None else Some (sign * digitsValue R Z))"

text \<open>
  A query parameter is absent (\<open>undefined\<close>) or a string. \<open>parseInt\<close>
  converts its argument with \<open>ToString\<close> first, so \<open>undefined\<close> is read
  as the text \<open>undefined\<close>.
\<close>

definition parseIntParam :: "string option \<Rightarrow> int option" where
  "parseIntParam p = (case p of None \<Rightarrow> parseInt ''undefined'' | Some s \<Rightarrow> parseInt s)"

text \<open>\<open>x || d\<close> on a Number: \<open>NaN\<close> and zero are falsy.\<close>

definition orDefault :: "int option \<Rightarrow> int \<Rightarrow> int" where
  "orDefault x d = (case x of None \<Rightarrow> d | Some n \<Rightarrow> if n = 0 then d else n)"

subsection \<open>\<open>String.prototype.split(',')\<close>, \<open>toLowerCase\<close>, \<open>Math.ceil\<close>\<close>

fun split_comma :: "string \<Rightarrow> string list" where
  "split_comma [] = [[]]"
| "split_comma (c # cs) =
     (if c = CHR '','' then [] # split_comma cs
      else (c # hd (split_comma cs)) # tl (split_comma cs))"

definition toLowerChar :: "char \<Rightarrow> char" where
  "toLowerChar c =
     (let n = (of_char c :: nat) in if 65 \<le> n \<and> n \<le> 90 then char_of (n + 32) else c)"

definition toLowerCase :: "string \<Rightarrow> string" where
  "toLowerCase s = map toLowerChar s"

text \<open>
  \<open>Math.ceil(total / limit)\<close> on integers with a non-zero divisor, written
  with the floor division of \<open>int\<close>.
\<close>

definition Math_ceil_div :: "int \<Rightarrow> int \<Rightarrow> int" where
  "Math_ceil_div a b = - ((- a) div b)"

section \<open>Requests, responses and the persistence interface\<close>

text \<open>
  \<open>req.query\<close> holds the four parameters the list handlers read, each
  absent or a string (a parameter repeated in the URL, which the framework
  would deliver as an array, is outside the model); \<open>req.params.id\<close> is
  the primary key of the route (an integer, as every route documents it);
  \<open>req.body\<close> is the parsed JSON object. The bodies of the auth routes
  carry the strings \<open>name\<close>, \<open>email\<close> and \<open>password\<close>, which the
  auth handlers take as arguments.
\<close>

record query =
  q_page :: "string option"
  q_limit :: "string option"
  q_sort :: "string option"
  q_populate :: "string option"

record request =
  params_id :: int
  req_query :: query
  req_body :: obj

record response =
  status :: nat
  body :: json

text \<open>
  An \<open>async\<close> handler either sends a response or its promise rejects with
  the error that escaped it; in the second case the handler itself has
  written no response.
\<close>

datatype outcome = Responded response | Rejected js_error

text \<open>
  The ORM is an external collaborator. \<open>db.Course\<close>, \<open>db.Teacher\<close> and
  \<open>db.Student\<close> are the models the controllers name; every call on them
  is asynchronous and may throw. The interface below is what the handlers
  use of it, over an arbitrary state \<open>'s\<close> of the database, with
  \<open>Inl\<close> the error thrown.
\<close>

datatype model = Course | Teacher | Student

record user =
  user_id :: int
  user_name :: string
  user_email :: string
  user_password :: string

record inst =
  inst_id :: int
  createdAt :: int
  dataValues :: obj

record findOptions =
  opt_include :: "model list"
  opt_limit :: int
  opt_offset :: int
  opt_order :: "string \<times> string"

record 's persistence =
  User_findOne :: "string \<Rightarrow> 's \<Rightarrow> (js_error + user option) \<times> 's"
  User_create :: "string \<Rightarrow> string \<Rightarrow> string \<Rightarrow> 's \<Rightarrow> (js_error + user) \<times> 's"
  User_findAll :: "string list \<Rightarrow> 's \<Rightarrow> (js_error + obj list) \<times> 's"
  db_create :: "model \<Rightarrow> obj \<Rightarrow> 's \<Rightarrow> (js_error + inst) \<times> 's"
  db_count :: "model \<Rightarrow> 's \<Rightarrow> (js_error + int) \<times> 's"
  db_findAll :: "model \<Rightarrow> findOptions \<Rightarrow> 's \<Rightarrow> (js_error + inst list) \<times> 's"
  db_findByPk :: "model \<Rightarrow> int \<Rightarrow> model list \<Rightarrow> 's \<Rightarrow> (js_error + inst option) \<times> 's"
  db_update :: "model \<Rightarrow> inst \<Rightarrow> obj \<Rightarrow> 's \<Rightarrow> (js_error + inst) \<times> 's"
  db_destroy :: "model \<Rightarrow> inst \<Rightarrow> 's \<Rightarrow> (js_error + unit) \<times> 's"

text \<open>The hashing and token libraries and the process environment.\<close>

record env =
  JWT_SECRET :: "string option"
  bcrypt_hash :: "string \<Rightarrow> nat \<Rightarrow> string"
  bcrypt_compare :: "string \<Rightarrow> string \<Rightarrow> bool"
  jwt_sign :: "json \<Rightarrow> string \<Rightarrow> string \<Rightarrow> string"

text \<open>\<open>res.json(instance)\<close> serialises the instance.\<close>

definition toJSON :: "inst \<Rightarrow> json" where
  "toJSON i = JObj ((''id'', JNum (inst_id i)) # dataValues i @ [(''createdAt'', JNum (createdAt i))])"

subsection \<open>Control flow: \<open>await\<close>, \<open>try/catch\<close>, \<open>res.status(..).json(..)\<close>\<close>

type_synonym ('s, 'a) async = "'s \<Rightarrow> (js_error + 'a) \<times> 's"

definition await :: "('s, 'a) async \<Rightarrow> ('a \<Rightarrow> ('s, 'b) async) \<Rightarrow> ('s, 'b) async" where
  "await m f s = (case m s of (Inl err, s') \<Rightarrow> (Inl err, s') | (Inr x, s') \<Rightarrow> f x s')"

definition res_json :: "nat \<Rightarrow> json \<Rightarrow> ('s, response) async" where
  "res_json st b s = (Inr \<lparr>status = st, body = b\<rparr>, s)"

text \<open>
  The \<open>try { .. } catch (err) { res.status(500).json({ error: err.message }) }\<close>
  that wraps the whole body of every Course, Teacher and Student handler.
\<close>

definition try_catch_500 :: "('s, response) async \<Rightarrow> 's \<Rightarrow> outcome \<times> 's" where
  "try_catch_500 m s =
     (case m s of
        (Inl err, s') \<Rightarrow> (Responded \<lparr>status = 500, body = JObj [(''error'', JStr (message err))]\<rparr>, s')
      | (Inr r, s') \<Rightarrow> (Responded r, s'))"

text \<open>A handler body with no \<open>try\<close> around it: a thrown error rejects the promise.\<close>

definition no_catch :: "('s, response) async \<Rightarrow> 's \<Rightarrow> outcome \<times> 's" where
  "no_catch m s =
     (case m s of
        (Inl err, s') \<Rightarrow> (Rejected err, s')
      | (Inr r, s') \<Rightarrow> (Responded r, s'))"

section \<open>The auth controller\<close>

definition SELECT :: "env \<Rightarrow> string" where
  "SELECT e = (case JWT_SECRET e of None \<Rightarrow> ''virak123'' | Some v \<Rightarrow> if v = [] then ''virak123'' else v)"

definition register :: "'s persistence \<Rightarrow> env \<Rightarrow> string \<Rightarrow> string \<Rightarrow> string \<Rightarrow> 's \<Rightarrow> outcome \<times> 's" where
  "register db e name email password =
     no_catch
       (await (User_findOne db email) (\<lambda>exists.
          if exists \<noteq> None then
            res_json 400 (JObj [(''message'', JStr ''Email already exists'')])
          else
            let hashedPassword = bcrypt_hash e password 10 in
            await (User_create db name email hashedPassword) (\<lambda>user.
              res_json 201
                (JObj [(''message'', JStr ''User registered successfully''),
                       (''user'', JObj [(''id'', JNum (user_id user)),
                                        (''email'', JStr (user_email user))])]))))"

definition login :: "'s persistence \<Rightarrow> env \<Rightarrow> string \<Rightarrow> string \<Rightarrow> 's \<Rightarrow> outcome \<times> 's" where
  "login db e email password =
     no_catch
       (await (User_findOne db email) (\<lambda>found.
          case found of
            None \<Rightarrow> res_json 404 (JObj [(''message'', JStr ''User not found'')])
          | Some user \<Rightarrow>
              let validPassword = bcrypt_compare e password (user_password user) in
              if \<not> validPassword then
                res_json 401 (JObj [(''message'', JStr ''Invalid credentials'')])
              else
                let token = jwt_sign e
                      (JObj [(''id'', JNum (user_id user)), (''email'', JStr (user_email user))])
                      (SELECT e) ''1h''
                in res_json 200
                     (JObj [(''token'', JStr token),
                            (''user'', JObj [(''id'', JNum (user_id user)),
                                             (''email'', JStr (user_email user))])])))"

definition getAllUsers :: "'s persistence \<Rightarrow> 's \<Rightarrow> outcome \<times> 's" where
  "getAllUsers db =
     no_catch
       (await (User_findAll db [''id'', ''name'', ''email'']) (\<lambda>users.
          res_json 200 (JArr (map JObj users))))"

section \<open>The list query: pagination and sorting\<close>

text \<open>
  The three list handlers open with the same three lines:
  \<^verbatim>\<open>const limit = parseInt(req.query.limit) || 10;\<close>,
  \<^verbatim>\<open>const page = parseInt(req.query.page) || 1;\<close> and
  \<^verbatim>\<open>const sort = req.query.sort === 'asc' ? 'ASC' : 'DESC';\<close>.
\<close>

definition limit_of :: "query \<Rightarrow> int" where
  "limit_of q = orDefault (parseIntParam (q_limit q)) 10"

definition page_of :: "query \<Rightarrow> int" where
  "page_of q = orDefault (parseIntParam (q_page q)) 1"

definition sort_of :: "query \<Rightarrow> string" where
  "sort_of q = (if q_sort q = Some ''asc'' then ''ASC'' else ''DESC'')"

section \<open>The course controller\<close>

text \<open>
  The eager-loading block, written twice in the controller (in the list
  handler and in the by-id handler) with the same text: \<open>populate\<close> is
  used only when truthy (present and not the empty string), split at
  commas, and searched with \<open>Array.prototype.includes\<close>, which compares
  strings with strict equality.
\<close>

definition course_includeOptions :: "string option \<Rightarrow> model list" where
  "course_includeOptions populate =
     (case populate of
        None \<Rightarrow> []
      | Some p \<Rightarrow>
          if p = [] then []
          else
            let populateArray = split_comma p in
            (if ''teacher'' \<in> set populateArray then [Teacher] else []) @
            (if ''student'' \<in> set populateArray then [Student] else []))"

definition createCourse :: "'s persistence \<Rightarrow> request \<Rightarrow> 's \<Rightarrow> outcome \<times> 's" where
  "createCourse db req =
     try_catch_500
       (await (db_create db Course (req_body req)) (\<lambda>course.
          res_json 201 (toJSON course)))"

definition getAllCourses :: "'s persistence \<Rightarrow> request \<Rightarrow> 's \<Rightarrow> outcome \<times> 's" where
  "getAllCourses db req =
     try_catch_500
       (let limit = limit_of (req_query req);
            page = page_of (req_query req);
            offset = (page - 1) * limit;
            sort = sort_of (req_query req);
            includeOptions = course_includeOptions (q_populate (req_query req))
        in await (db_count db Course) (\<lambda>total.
           await (db_findAll db Course
                    \<lparr>opt_include = includeOptions, opt_limit = limit,
                     opt_offset = offset, opt_order = (''createdAt'', sort)\<rparr>) (\<lambda>courses.
           res_json 200
             (JObj [(''meta'', JObj [(''totalItems'', JNum total),
                                     (''page'', JNum page),
                                     (''totalPages'', JNum (Math_ceil_div total limit)),
                                     (''limit'', JNum limit),
                                     (''sort'', JStr (toLowerCase sort))]),
                    (''data'', JArr (map toJSON courses))]))))"

definition getCourseById :: "'s persistence \<Rightarrow> request \<Rightarrow> 's \<Rightarrow> outcome \<times> 's" where
  "getCourseById db req =
     try_catch_500
       (let includeOptions = course_includeOptions (q_populate (req_query req))
        in await (db_findByPk db Course (params_id req) includeOptions) (\<lambda>found.
           case found of
             None \<Rightarrow> res_json 404 (JObj [(''messsage'', JStr ''Not found'')])
           | Some course \<Rightarrow> res_json 200 (toJSON course)))"

definition updateCourse :: "'s persistence \<Rightarrow> request \<Rightarrow> 's \<Rightarrow> outcome \<times> 's" where
  "updateCourse db req =
     try_catch_500
       (await (db_findByPk db Course (params_id req) []) (\<lambda>found.
          case found of
            None \<Rightarrow> res_json 404 (JObj [(''message'', JStr ''Not found'')])
          | Some course \<Rightarrow>
              await (db_update db Course course (req_body req)) (\<lambda>updated.
                res_json 200 (toJSON updated))))"

definition deleteCourse :: "'s persistence \<Rightarrow> request \<Rightarrow> 's \<Rightarrow> outcome \<times> 's" where
  "deleteCourse db req =
     try_catch_500
       (await (db_findByPk db Course (params_id req) []) (\<lambda>found.
          case found of
            None \<Rightarrow> res_json 404 (JObj [(''message'', JStr ''Not found'')])
          | Some course \<Rightarrow>
              await (db_destroy db Course course) (\<lambda>_.
                res_json 200 (JObj [(''message'', JStr ''Deleted'')]))))"

section \<open>The teacher controller\<close>

definition teacher_includeOptions :: "string option \<Rightarrow> model list" where
  "teacher_includeOptions populate =
     (case populate of
        None \<Rightarrow> []
      | Some p \<Rightarrow>
          if p = [] then []
          else
            let populateArray = split_comma p in
            (if ''courses'' \<in> set populateArray then [Course] else []))"

definition createTeacher :: "'s persistence \<Rightarrow> request \<Rightarrow> 's \<Rightarrow> outcome \<times> 's" where
  "createTeacher db req =
     try_catch_500
       (await (db_create db Teacher (req_body req)) (\<lambda>teacher.
          res_json 201 (toJSON teacher)))"

definition getAllTeachers :: "'s persistence \<Rightarrow> request \<Rightarrow> 's \<Rightarrow> outcome \<times> 's" where
  "getAllTeachers db req =
     try_catch_500
       (let limit = limit_of (req_query req);
            page = page_of (req_query req);
            offset = (page - 1) * limit;
            sort = sort_of (req_query req);
            includeOptions = teacher_includeOptions (q_populate (req_query req))
        in await (db_count db Teacher) (\<lambda>total.
           await (db_findAll db Teacher
                    \<lparr>opt_include = includeOptions, opt_limit = limit,
                     opt_offset = offset, opt_order = (''createdAt'', sort)\<rparr>) (\<lambda>teachers.
           res_json 200
             (JObj [(''meta'', JObj [(''totalItems'', JNum total),
                                     (''page'', JNum page),
                                     (''totalPages'', JNum (Math_ceil_div total limit)),
                                     (''limit'', JNum limit),
                                     (''sort'', JStr (toLowerCase sort))]),
                    (''data'', JArr (map toJSON teachers))]))))"

definition getTeacherById :: "'s persistence \<Rightarrow> request \<Rightarrow> 's \<Rightarrow> outcome \<times> 's" where
  "getTeacherById db req =
     try_catch_500
       (let includeOptions = teacher_includeOptions (q_populate (req_query req))
        in await (db_findByPk db Teacher (params_id req) includeOptions) (\<lambda>found.
           case found of
             None \<Rightarrow> res_json 404 (JObj [(''message'', JStr ''Not found'')])
           | Some teacher \<Rightarrow> res_json 200 (toJSON teacher)))"

definition updateTeacher :: "'s persistence \<Rightarrow> request \<Rightarrow> 's \<Rightarrow> outcome \<times> 's" where
  "updateTeacher db req =
     try_catch_500
       (await (db_findByPk db Teacher (params_id req) []) (\<lambda>found.
          case found of
            None \<Rightarrow> res_json 404 (JObj [(''message'', JStr ''Not found'')])
          | Some teacher \<Rightarrow>
              await (db_update db Teacher teacher (req_body req)) (\<lambda>updated.
                res_json 200 (toJSON updated))))"

definition deleteTeacher :: "'s persistence \<Rightarrow> request \<Rightarrow> 's \<Rightarrow> outcome \<times> 's" where
  "deleteTeacher db req =
     try_catch_500
       (await (db_findByPk db Teacher (params_id req) []) (\<lambda>found.
          case found of
            None \<Rightarrow> res_json 404 (JObj [(''message'', JStr ''Not found'')])
          | Some teacher \<Rightarrow>
              await (db_destroy db Teacher teacher) (\<lambda>_.
                res_json 200 (JObj [(''message'', JStr ''Deleted'')]))))"

section \<open>The student controller\<close>

definition student_includeOptions :: "string option \<Rightarrow> model list" where
  "student_includeOptions populate =
     (case populate of
        None \<Rightarrow> []
      | Some p \<Rightarrow>
          if p = [] then []
          else
            let populateArray = split_comma p in
            (if ''courses'' \<in> set populateArray then [Course] else []))"

definition createStudent :: "'s persistence \<Rightarrow> request \<Rightarrow> 's \<Rightarrow> outcome \<times> 's" where
  "createStudent db req =
     try_catch_500
       (await (db_create db Student (req_body req)) (\<lambda>student.
          res_json 201 (toJSON student)))"

definition getAllStudents :: "'s persistence \<Rightarrow> request \<Rightarrow> 's \<Rightarrow> outcome \<times> 's" where
  "getAllStudents db req =
     try_catch_500
       (let limit = limit_of (req_query req);
            page = page_of (req_query req);
            offset = (page - 1) * limit;
            sort = sort_of (req_query req);
            includeOptions = student_includeOptions (q_populate (req_query req))
        in await (db_count db Student) (\<lambda>total.
           await (db_findAll db Student
                    \<lparr>opt_include = includeOptions, opt_limit = limit,
                     opt_offset = offset, opt_order = (''createdAt'', sort)\<rparr>) (\<lambda>students.
           res_json 200
             (JObj [(''meta'', JObj [(''totalItems'', JNum total),
                                     (''page'', JNum page),
                                     (''totalPages'', JNum (Math_ceil_div total limit)),
                                     (''limit'', JNum limit),
                                     (''sort'', JStr (toLowerCase sort))]),
                    (''data'', JArr (map toJSON students))]))))"

definition getStudentById :: "'s persistence \<Rightarrow> request \<Rightarrow> 's \<Rightarrow> outcome \<times> 's" where
  "getStudentById db req =
     try_catch_500
       (let includeOptions = student_includeOptions (q_populate (req_query req))
        in await (db_findByPk db Student (params_id req) includeOptions) (\<lambda>found.
           case found of
             None \<Rightarrow> res_json 404 (JObj [(''message'', JStr ''Not found'')])
           | Some student \<Rightarrow> res_json 200 (toJSON student)))"

definition updateStudent :: "'s persistence \<Rightarrow> request \<Rightarrow> 's \<Rightarrow> outcome \<times> 's" where
  "updateStudent db req =
     try_catch_500
       (await (db_findByPk db Student (params_id req) []) (\<lambda>found.
          case found of
            None \<Rightarrow> res_json 404 (JObj [(''message'', JStr ''Not found'')])
          | Some student \<Rightarrow>
              await (db_update db Student student (req_body req)) (\<lambda>updated.
                res_json 200 (toJSON updated))))"

definition deleteStudent :: "'s persistence \<Rightarrow> request \<Rightarrow> 's \<Rightarrow> outcome \<times> 's" where
  "deleteStudent db req =
     try_catch_500
       (await (db_findByPk db Student (params_id req) []) (\<lambda>found.
          case found of
            None \<Rightarrow> res_json 404 (JObj [(''message'', JStr ''Not found'')])
          | Some student \<Rightarrow>
              await (db_destroy db Student student) (\<lambda>_.
                res_json 200 (JObj [(''message'', JStr ''Deleted'')]))))"

section \<open>An in-memory persistence layer\<close>

text \<open>
  Modelled from the spec: the ORM and the model declarations
  (\<open>models/index.js\<close>) are not among the source files. The store holds the
  four tables of the data model; a resource row has a generated id, a
  creation timestamp and the fields it was created with.
\<close>

record store =
  Users :: "user list"
  Courses :: "inst list"
  Teachers :: "inst list"
  Students :: "inst list"
  nextId :: int
  now :: int

text \<open>Modelled from the spec: the table of a resource.\<close>

definition table :: "model \<Rightarrow> store \<Rightarrow> inst list" where
  "table m s = (case m of Course \<Rightarrow> Courses s | Teacher \<Rightarrow> Teachers s | Student \<Rightarrow> Students s)"

text \<open>Modelled from the spec: the store with the table of a resource replaced.\<close>

definition set_table :: "model \<Rightarrow> inst list \<Rightarrow> store \<Rightarrow> store" where
  "set_table m rows s =
     (case m of
        Course \<Rightarrow> s\<lparr>Courses := rows\<rparr>
      | Teacher \<Rightarrow> s\<lparr>Teachers := rows\<rparr>
      | Student \<Rightarrow> s\<lparr>Students := rows\<rparr>)"

text \<open>
  Modelled from the spec: the associations between the models are declared
  outside the source files, so the related data that eager loading attaches
  to a row is a parameter: for the model of the row, the row, an included
  model and the store, the entry added to the row.
\<close>

type_synonym loader = "model \<Rightarrow> inst \<Rightarrow> model \<Rightarrow> store \<Rightarrow> string \<times> json"

text \<open>
  Modelled from the spec: a fetched row includes the related data of each
  model asked for, and nothing more.
\<close>

definition withIncluded :: "loader \<Rightarrow> model \<Rightarrow> store \<Rightarrow> model list \<Rightarrow> inst \<Rightarrow> inst" where
  "withIncluded ld m s incs r = r\<lparr>dataValues := dataValues r @ map (\<lambda>i. ld m r i s) incs\<rparr>"

text \<open>
  Modelled from the spec: \<open>create(body)\<close> persists a new record from the
  request body verbatim, with a generated id.
\<close>

definition mem_create :: "model \<Rightarrow> obj \<Rightarrow> (store, inst) async" where
  "mem_create m b s =
     (let r = \<lparr>inst_id = nextId s, createdAt = now s, dataValues = b\<rparr>
      in (Inr r, set_table m (table m s @ [r]) (s\<lparr>nextId := nextId s + 1, now := now s + 1\<rparr>)))"

text \<open>Modelled from the spec: the total unfiltered count of the resource.\<close>

definition mem_count :: "model \<Rightarrow> (store, int) async" where
  "mem_count m s = (Inr (int (length (table m s))), s)"

text \<open>
  Modelled from the spec: the columns a fetch can be ordered by are the
  ones every row has, the creation timestamp and the id; any other column
  name is unknown to the store.
\<close>

definition column_key :: "string \<Rightarrow> (inst \<Rightarrow> int) option" where
  "column_key c =
     (if c = ''createdAt'' then Some createdAt
      else if c = ''id'' then Some inst_id
      else None)"

text \<open>
  Modelled from the spec: rows are sorted by the key of the column,
  ascending for \<open>ASC\<close> and descending otherwise. Rows with the same key
  keep their order of insertion when ascending, and the reverse of it when
  descending.
\<close>

definition ordered :: "(inst \<Rightarrow> int) \<Rightarrow> string \<Rightarrow> inst list \<Rightarrow> inst list" where
  "ordered key dir rows = (if dir = ''ASC'' then sort_key key rows else rev (sort_key key rows))"

text \<open>
  Modelled from the spec: the fetch returns at most \<open>limit\<close> records
  starting at \<open>offset\<close> of the table sorted by the column and direction
  of \<open>order\<close>, each with the related data of the included models. The
  spec is silent on a negative limit or offset and on an unknown column;
  most SQL engines reject them, and so does this store.
\<close>

definition mem_findAll :: "loader \<Rightarrow> model \<Rightarrow> findOptions \<Rightarrow> (store, inst list) async" where
  "mem_findAll ld m opts s =
     (if opt_limit opts < 0 \<or> opt_offset opts < 0 then
        (Inl (Error ''negative LIMIT or OFFSET''), s)
      else
        case column_key (fst (opt_order opts)) of
          None \<Rightarrow> (Inl (Error ''unknown column''), s)
        | Some key \<Rightarrow>
            (Inr (map (withIncluded ld m s (opt_include opts))
                    (take (nat (opt_limit opts))
                       (drop (nat (opt_offset opts))
                          (ordered key (snd (opt_order opts)) (table m s))))), s))"

text \<open>Modelled from the spec: fetch by primary key, absent when no row has it.\<close>

definition mem_findByPk :: "loader \<Rightarrow> model \<Rightarrow> int \<Rightarrow> model list \<Rightarrow> (store, inst option) async" where
  "mem_findByPk ld m pk incs s =
     (Inr (map_option (withIncluded ld m s incs) (find (\<lambda>r. inst_id r = pk) (table m s))), s)"

text \<open>
  Modelled from the spec: \<open>update\<close> applies a partial field merge from the
  body and persists: a key of the body replaces the field of that name (or
  adds it), every other field stays.
\<close>

definition mem_update :: "model \<Rightarrow> inst \<Rightarrow> obj \<Rightarrow> (store, inst) async" where
  "mem_update m r b s =
     (let r' = r\<lparr>dataValues := AList.merge (dataValues r) b\<rparr>
      in (Inr r', set_table m (map (\<lambda>x. if inst_id x = inst_id r then r' else x) (table m s)) s))"

text \<open>Modelled from the spec: \<open>delete\<close> removes the record.\<close>

definition mem_destroy :: "model \<Rightarrow> inst \<Rightarrow> (store, unit) async" where
  "mem_destroy m r s = (Inr (), set_table m (filter (\<lambda>x. inst_id x \<noteq> inst_id r) (table m s)) s)"

text \<open>
  Modelled from the spec: the credential store looks a user up by email
  (the first user with exactly that email).
\<close>

definition mem_User_findOne :: "string \<Rightarrow> (store, user option) async" where
  "mem_User_findOne email s = (Inr (find (\<lambda>u. user_email u = email) (Users s)), s)"

text \<open>Modelled from the spec: a new user is stored with a generated id.\<close>

definition mem_User_create :: "string \<Rightarrow> string \<Rightarrow> string \<Rightarrow> (store, user) async" where
  "mem_User_create name email pw s =
     (let u = \<lparr>user_id = nextId s, user_name = name, user_email = email, user_password = pw\<rparr>
      in (Inr u, s\<lparr>Users := Users s @ [u], nextId := nextId s + 1\<rparr>))"

text \<open>
  Modelled from the spec: a user has an id, a name, an email and a password
  hash; a query for some attributes returns those of them only.
\<close>

definition user_attributes :: "string list \<Rightarrow> user \<Rightarrow> obj" where
  "user_attributes attrs u =
     filter (\<lambda>kv. fst kv \<in> set attrs)
       [(''id'', JNum (user_id u)), (''name'', JStr (user_name u)),
        (''email'', JStr (user_email u)), (''password'', JStr (user_password u))]"

text \<open>Modelled from the spec: the list of all users, with the attributes asked for.\<close>

definition mem_User_findAll :: "string list \<Rightarrow> (store, obj list) async" where
  "mem_User_findAll attrs s = (Inr (map (user_attributes attrs) (Users s)), s)"

text \<open>
  Modelled from the spec: the persistence layer of the service, as the
  interface the handlers use, for a given eager-loading function.
\<close>

definition memdb :: "loader \<Rightarrow> store persistence" where
  "memdb ld =
     \<lparr>User_findOne = mem_User_findOne,
      User_create = mem_User_create,
      User_findAll = mem_User_findAll,
      db_create = mem_create,
      db_count = mem_count,
      db_findAll = mem_findAll ld,
      db_findByPk = mem_findByPk ld,
      db_update = mem_update,
      db_destroy = mem_destroy\<rparr>"

text \<open>A persistence layer whose every call throws the same error (a lost connection).\<close>

definition failing_db :: "js_error \<Rightarrow> unit persistence" where
  "failing_db err =
     \<lparr>User_findOne = (\<lambda>_ s. (Inl err, s)),
      User_create = (\<lambda>_ _ _ s. (Inl err, s)),
      User_findAll = (\<lambda>_ s. (Inl err, s)),
      db_create = (\<lambda>_ _ s. (Inl err, s)),
      db_count = (\<lambda>_ s. (Inl err, s)),
      db_findAll = (\<lambda>_ _ s. (Inl err, s)),
      db_findByPk = (\<lambda>_ _ _ s. (Inl err, s)),
      db_update = (\<lambda>_ _ _ s. (Inl err, s)),
      db_destroy = (\<lambda>_ _ s. (Inl err, s))\<rparr>"

section \<open>The handlers of a resource, by model\<close>

text \<open>
  The three controllers have the same five handlers. The functions below
  select the handler of a model, so that a property of all three
  controllers is one statement over \<open>m\<close>.
\<close>

definition includeOptions_for :: "model \<Rightarrow> string option \<Rightarrow> model list" where
  "includeOptions_for m =
     (case m of Course \<Rightarrow> course_includeOptions
              | Teacher \<Rightarrow> teacher_includeOptions
              | Student \<Rightarrow> student_includeOptions)"

definition getAll :: "model \<Rightarrow> 's persistence \<Rightarrow> request \<Rightarrow> 's \<Rightarrow> outcome \<times> 's" where
  "getAll m = (case m of Course \<Rightarrow> getAllCourses | Teacher \<Rightarrow> getAllTeachers | Student \<Rightarrow> getAllStudents)"

definition getById :: "model \<Rightarrow> 's persistence \<Rightarrow> request \<Rightarrow> 's \<Rightarrow> outcome \<times> 's" where
  "getById m = (case m of Course \<Rightarrow> getCourseById | Teacher \<Rightarrow> getTeacherById | Student \<Rightarrow> getStudentById)"

definition updateById :: "model \<Rightarrow> 's persistence \<Rightarrow> request \<Rightarrow> 's \<Rightarrow> outcome \<times> 's" where
  "updateById m = (case m of Course \<Rightarrow> updateCourse | Teacher \<Rightarrow> updateTeacher | Student \<Rightarrow> updateStudent)"

text \<open>
  The whitelist of the specification: the populate names a resource
  recognises, each with the model it loads.
\<close>

definition whitelist :: "model \<Rightarrow> (string \<times> model) list" where
  "whitelist m =
     (case m of
        Course \<Rightarrow> [(''teacher'', Teacher), (''student'', Student)]
      | Teacher \<Rightarrow> [(''courses'', Course)]
      | Student \<Rightarrow> [(''courses'', Course)])"

text \<open>The comma-separated values of a populate parameter that is used at all.\<close>

definition populate_values :: "string option \<Rightarrow> string list" where
  "populate_values p = (case p of None \<Rightarrow> [] | Some v \<Rightarrow> if v = [] then [] else split_comma v)"

text \<open>The envelope of a list response.\<close>

definition envelope :: "int \<Rightarrow> int \<Rightarrow> int \<Rightarrow> int \<Rightarrow> string \<Rightarrow> json list \<Rightarrow> json" where
  "envelope totalItems page totalPages limit srt rows =
     JObj [(''meta'', JObj [(''totalItems'', JNum totalItems),
                             (''page'', JNum page),
                             (''totalPages'', JNum totalPages),
                             (''limit'', JNum limit),
                             (''sort'', JStr srt)]),
           (''data'', JArr rows)]"

subsection \<open>The number a query parameter asks for\<close>









text \<open>The rows the in-memory store returns for a list request.\<close>

definition page_rows :: "loader \<Rightarrow> model \<Rightarrow> request \<Rightarrow> store \<Rightarrow> inst list" where
  "page_rows ld m req s =
     map (withIncluded ld m s (includeOptions_for m (q_populate (req_query req))))
       (take (nat (limit_of (req_query req)))
          (drop (nat ((page_of (req_query req) - 1) * limit_of (req_query req)))
             (ordered createdAt (sort_of (req_query req)) (table m s))))"

text \<open>The response of the \<open>catch\<close> block.\<close>

definition internal_error :: "js_error \<Rightarrow> response" where
  "internal_error err = \<lparr>status = 500, body = JObj [(''error'', JStr (message err))]\<rparr>"

section \<open>Requests and stores used as examples\<close>

definition with_populate :: "request \<Rightarrow> string option \<Rightarrow> request" where
  "with_populate req p = req\<lparr>req_query := (req_query req)\<lparr>q_populate := p\<rparr>\<rparr>"

definition plain_query :: query where
  "plain_query = \<lparr>q_page = None, q_limit = None, q_sort = None, q_populate = None\<rparr>"

definition plain_request :: request where
  "plain_request = \<lparr>params_id = 1, req_query = plain_query, req_body = []\<rparr>"

definition empty_store :: store where
  "empty_store = \<lparr>Users = [], Courses = [], Teachers = [], Students = [], nextId = 1, now = 0\<rparr>"

text \<open>A loader that attaches \<open>null\<close> under the name of the included model.\<close>

definition null_loader :: loader where
  "null_loader m r i s =
     (case i of Course \<Rightarrow> (''Courses'', JNull) | Teacher \<Rightarrow> (''Teacher'', JNull) | Student \<Rightarrow> (''Students'', JNull))"

definition three_courses :: store where
  "three_courses =
     \<lparr>Users = [],
      Courses = [\<lparr>inst_id = 1, createdAt = 10, dataValues = [(''title'', JStr ''Algebra'')]\<rparr>,
                 \<lparr>inst_id = 2, createdAt = 20, dataValues = [(''title'', JStr ''Biology'')]\<rparr>,
                 \<lparr>inst_id = 3, createdAt = 30, dataValues = [(''title'', JStr ''Chemistry'')]\<rparr>],
      Teachers = [], Students = [], nextId = 4, now = 31\<rparr>"

definition second_page_of_two :: request where
  "second_page_of_two =
     \<lparr>params_id = 1,
      req_query = \<lparr>q_page = Some ''2'', q_limit = Some ''2'', q_sort = None, q_populate = None\<rparr>,
      req_body = []\<rparr>"

definition query_with :: "string option \<Rightarrow> string option \<Rightarrow> query" where
  "query_with pg lm = \<lparr>q_page = pg, q_limit = lm, q_sort = None, q_populate = None\<rparr>"


definition rename_request :: "int \<Rightarrow> request" where
  "rename_request pk =
     \<lparr>params_id = pk, req_query = plain_query, req_body = [(''title'', JStr ''Botany'')]\<rparr>"

text \<open>
  A stand-in for the hashing and token libraries, for the examples only: it
  has the interface of the libraries and none of their cryptography.
\<close>

definition toy_env :: env where
  "toy_env =
     \<lparr>JWT_SECRET = None,
      bcrypt_hash = (\<lambda>pw rounds. ''$2a$10$'' @ rev pw),
      bcrypt_compare = (\<lambda>pw h. h = ''$2a$10$'' @ rev pw),
      jwt_sign = (\<lambda>payload secret expiresIn. ''signed with '' @ secret @ '' for '' @ expiresIn)\<rparr>"

definition ana :: user where
  "ana = \<lparr>user_id = 7, user_name = ''Ana'', user_email = ''ana@x.com'',
          user_password = ''$2a$10$terces''\<rparr>"

definition ana_registered :: store where
  "ana_registered = \<lparr>Users = [ana], Courses = [], Teachers = [], Students = [], nextId = 8, now = 0\<rparr>"

definition courses_out_of_order :: store where
  "courses_out_of_order =
     \<lparr>Users = [],
      Courses = [\<lparr>inst_id = 1, createdAt = 30, dataValues = [(''title'', JStr ''Algebra'')]\<rparr>,
                 \<lparr>inst_id = 2, createdAt = 10, dataValues = [(''title'', JStr ''Biology'')]\<rparr>,
                 \<lparr>inst_id = 3, createdAt = 20, dataValues = [(''title'', JStr ''Chemistry'')]\<rparr>],
      Teachers = [], Students = [], nextId = 4, now = 31\<rparr>"

section \<open>Eager loading: the populate whitelist\<close>

lemma of_char_comma: "(of_char c = (44::nat)) = (c = CHR '','')"
proof -
  have "(of_char c = (of_char (CHR '','') :: nat)) = (c = CHR '','')"
    by (rule of_char_eq_iff)
  then show ?thesis by simp
qed

lemma toLowerChar_comma: "toLowerChar c = CHR '','' \<longleftrightarrow> c = CHR '',''"
proof -
  have "(of_char (toLowerChar c) = (44::nat)) = (of_char c = (44::nat))"
    by (auto simp: toLowerChar_def Let_def)
  then show ?thesis by (simp only: of_char_comma)
qed

lemma split_comma_no_comma: "CHR '','' \<notin> set v \<Longrightarrow> split_comma v = [v]"
  by (induction v) auto

lemma toLowerCase_no_comma: "CHR '','' \<notin> set (toLowerCase v) \<Longrightarrow> CHR '','' \<notin> set v"
proof (induction v)
  case Nil
  then show ?case by simp
next
  case (Cons c cs)
  then show ?case using toLowerChar_comma [of c] by (auto simp: toLowerCase_def)
qed

lemma toLowerCase_names:
  "toLowerCase ''teacher'' = ''teacher''" "toLowerCase ''student'' = ''student''"
  "toLowerCase ''courses'' = ''courses''"
  by code_simp+

lemma split_case_variant:
  assumes "toLowerCase v = w" and "w \<in> {''teacher'', ''student'', ''courses''}"
  shows "split_comma v = [v]"
proof -
  have "CHR '','' \<notin> set w" using assms(2) by fastforce
  then have "CHR '','' \<notin> set (toLowerCase v)" unfolding assms(1) .
  then show ?thesis by (rule split_comma_no_comma [OF toLowerCase_no_comma])
qed

lemma course_include_case_variant:
  assumes "toLowerCase v = w" and "v \<noteq> w" and "w \<in> {''teacher'', ''student''}"
  shows "course_includeOptions (Some v) = []"
proof -
  have sp: "split_comma v = [v]" using assms split_case_variant [of v w] by auto
  have "v \<noteq> ''teacher''" "v \<noteq> ''student''" using assms toLowerCase_names by auto
  then show ?thesis by (simp add: course_includeOptions_def sp)
qed

lemma courses_include_case_variant:
  assumes "toLowerCase v = ''courses''" and "v \<noteq> ''courses''"
  shows "teacher_includeOptions (Some v) = []" and "student_includeOptions (Some v) = []"
proof -
  have sp: "split_comma v = [v]" using assms split_case_variant [of v "''courses''"] by auto
  show "teacher_includeOptions (Some v) = []" "student_includeOptions (Some v) = []"
    using assms by (simp_all add: teacher_includeOptions_def student_includeOptions_def sp)
qed

lemma includeOptions_None:
  "course_includeOptions None = []" "teacher_includeOptions None = []" "student_includeOptions None = []"
  by (simp_all add: course_includeOptions_def teacher_includeOptions_def student_includeOptions_def)

lemma query_with_populate:
  "limit_of (req_query (with_populate req p)) = limit_of (req_query req)"
  "page_of (req_query (with_populate req p)) = page_of (req_query req)"
  "sort_of (req_query (with_populate req p)) = sort_of (req_query req)"
  "q_populate (req_query (with_populate req p)) = p"
  "params_id (with_populate req p) = params_id req"
  by (simp_all add: with_populate_def limit_of_def page_of_def sort_of_def)

text \<open>
  A list or by-id handler reads \<open>populate\<close> only to build its include
  options: two requests that differ in \<open>populate\<close> alone and lead to the
  same include options get the same outcome, whatever the persistence layer.
\<close>

lemma course_handlers_populate:
  "course_includeOptions p = course_includeOptions p' \<Longrightarrow>
     getAllCourses db (with_populate req p) s = getAllCourses db (with_populate req p') s \<and>
     getCourseById db (with_populate req p) s = getCourseById db (with_populate req p') s"
  by (simp add: getAllCourses_def getCourseById_def query_with_populate)

lemma teacher_handlers_populate:
  "teacher_includeOptions p = teacher_includeOptions p' \<Longrightarrow>
     getAllTeachers db (with_populate req p) s = getAllTeachers db (with_populate req p') s \<and>
     getTeacherById db (with_populate req p) s = getTeacherById db (with_populate req p') s"
  by (simp add: getAllTeachers_def getTeacherById_def query_with_populate)

lemma student_handlers_populate:
  "student_includeOptions p = student_includeOptions p' \<Longrightarrow>
     getAllStudents db (with_populate req p) s = getAllStudents db (with_populate req p') s \<and>
     getStudentById db (with_populate req p) s = getStudentById db (with_populate req p') s"
  by (simp add: getAllStudents_def getStudentById_def query_with_populate)

text \<open>
  Claim C10. The whitelist match is an exact, case-sensitive comparison. A
  populate value \<open>v\<close> that differs from a whitelisted name \<open>w\<close> only in
  letter case (\<open>toLowerCase v = w\<close> and \<open>v \<noteq> w\<close>) loads nothing: the
  include options are empty and the list and by-id handlers answer as they
  do for a request with no \<open>populate\<close> at all. The exact lower-case
  spellings \<open>teacher\<close>, \<open>student\<close> and \<open>courses\<close> do trigger eager
  loading.
\<close>

theorem populate_match_is_case_sensitive:
  assumes "toLowerCase v = w" and "v \<noteq> w"
  shows "(w \<in> {''teacher'', ''student''} \<longrightarrow>
            course_includeOptions (Some v) = [] \<and>
            getAllCourses db (with_populate req (Some v)) s = getAllCourses db (with_populate req None) s \<and>
            getCourseById db (with_populate req (Some v)) s = getCourseById db (with_populate req None) s) \<and>
         (w = ''courses'' \<longrightarrow>
            teacher_includeOptions (Some v) = [] \<and> student_includeOptions (Some v) = [] \<and>
            getAllTeachers db (with_populate req (Some v)) s = getAllTeachers db (with_populate req None) s \<and>
            getTeacherById db (with_populate req (Some v)) s = getTeacherById db (with_populate req None) s \<and>
            getAllStudents db (with_populate req (Some v)) s = getAllStudents db (with_populate req None) s \<and>
            getStudentById db (with_populate req (Some v)) s = getStudentById db (with_populate req None) s) \<and>
         course_includeOptions (Some ''teacher'') = [Teacher] \<and>
         course_includeOptions (Some ''student'') = [Student] \<and>
         teacher_includeOptions (Some ''courses'') = [Course] \<and>
         student_includeOptions (Some ''courses'') = [Course]"
proof -
  have A: "course_includeOptions (Some v) = []" if "w \<in> {''teacher'', ''student''}"
    using assms that by (rule course_include_case_variant)
  have B: "teacher_includeOptions (Some v) = []" "student_includeOptions (Some v) = []"
    if "w = ''courses''"
    using assms that courses_include_case_variant [of v] by simp_all
  show ?thesis
  proof (intro conjI impI)
    assume w: "w \<in> {''teacher'', ''student''}"
    show "course_includeOptions (Some v) = []" by (rule A [OF w])
    have e: "course_includeOptions (Some v) = course_includeOptions None"
      by (simp only: A [OF w] includeOptions_None)
    show "getAllCourses db (with_populate req (Some v)) s = getAllCourses db (with_populate req None) s"
      by (rule conjunct1 [OF course_handlers_populate [OF e]])
    show "getCourseById db (with_populate req (Some v)) s = getCourseById db (with_populate req None) s"
      by (rule conjunct2 [OF course_handlers_populate [OF e]])
  next
    assume w: "w = ''courses''"
    show "teacher_includeOptions (Some v) = []" by (rule B(1) [OF w])
    show "student_includeOptions (Some v) = []" by (rule B(2) [OF w])
    have e: "teacher_includeOptions (Some v) = teacher_includeOptions None"
      by (simp only: B(1) [OF w] includeOptions_None)
    show "getAllTeachers db (with_populate req (Some v)) s = getAllTeachers db (with_populate req None) s"
      by (rule conjunct1 [OF teacher_handlers_populate [OF e]])
    show "getTeacherById db (with_populate req (Some v)) s = getTeacherById db (with_populate req None) s"
      by (rule conjunct2 [OF teacher_handlers_populate [OF e]])
    have e': "student_includeOptions (Some v) = student_includeOptions None"
      by (simp only: B(2) [OF w] includeOptions_None)
    show "getAllStudents db (with_populate req (Some v)) s = getAllStudents db (with_populate req None) s"
      by (rule conjunct1 [OF student_handlers_populate [OF e']])
    show "getStudentById db (with_populate req (Some v)) s = getStudentById db (with_populate req None) s"
      by (rule conjunct2 [OF student_handlers_populate [OF e']])
  next
    show "course_includeOptions (Some ''teacher'') = [Teacher]"
      by (simp add: course_includeOptions_def)
    show "course_includeOptions (Some ''student'') = [Student]"
      by (simp add: course_includeOptions_def)
    show "teacher_includeOptions (Some ''courses'') = [Course]"
      by (simp add: teacher_includeOptions_def)
    show "student_includeOptions (Some ''courses'') = [Course]"
      by (simp add: student_includeOptions_def)
  qed
qed

theorem populate_match_is_case_sensitive_witness:
  "toLowerCase ''Teacher'' = ''teacher'' \<and> ''Teacher'' \<noteq> ''teacher'' \<and>
   course_includeOptions (Some ''Teacher'') = [] \<and>
   getAllCourses (memdb null_loader) (with_populate plain_request (Some ''Teacher'')) empty_store =
     getAllCourses (memdb null_loader) (with_populate plain_request None) empty_store \<and>
   toLowerCase ''COURSES'' = ''courses'' \<and> ''COURSES'' \<noteq> ''courses'' \<and>
   teacher_includeOptions (Some ''COURSES'') = [] \<and> student_includeOptions (Some ''COURSES'') = []"
proof -
  have a: "toLowerCase ''Teacher'' = ''teacher''" "toLowerCase ''COURSES'' = ''courses''"
    by code_simp+
  have b: "''Teacher'' \<noteq> ''teacher''" "''COURSES'' \<noteq> ''courses''" by simp_all
  show ?thesis
    using a b
      populate_match_is_case_sensitive [OF a(1) b(1), of "memdb null_loader" plain_request empty_store]
      populate_match_is_case_sensitive [OF a(2) b(2), of "memdb null_loader" plain_request empty_store]
    by simp
qed

section \<open>Pagination parameters\<close>














text \<open>A negative number is truthy, so it is used as it is.\<close>

lemma negative_limit_is_used_as_is:
  "limit_of (query_with None (Some ''-5'')) = - 5 \<and> page_of (query_with (Some ''-2'') None) = - 2"
  by code_simp

section \<open>The list handlers\<close>

lemma Math_ceil_div_ceiling: "Math_ceil_div a b = \<lceil>real_of_int a / real_of_int b\<rceil>"
  by (simp add: Math_ceil_div_def ceiling_divide_eq_div)

lemma memdb_simps:
  "User_findOne (memdb ld) = mem_User_findOne"
  "User_create (memdb ld) = mem_User_create"
  "User_findAll (memdb ld) = mem_User_findAll"
  "db_create (memdb ld) = mem_create"
  "db_count (memdb ld) = mem_count"
  "db_findAll (memdb ld) = mem_findAll ld"
  "db_findByPk (memdb ld) = mem_findByPk ld"
  "db_update (memdb ld) = mem_update"
  "db_destroy (memdb ld) = mem_destroy"
  by (simp_all add: memdb_def)

text \<open>What a list handler answers when both calls of the persistence layer succeed.\<close>

lemma getAll_ok:
  assumes "db_count db m s = (Inr n, s1)"
    and "db_findAll db m
           \<lparr>opt_include = includeOptions_for m (q_populate (req_query req)),
            opt_limit = limit_of (req_query req),
            opt_offset = (page_of (req_query req) - 1) * limit_of (req_query req),
            opt_order = (''createdAt'', sort_of (req_query req))\<rparr> s1 = (Inr rows, s2)"
  shows "getAll m db req s =
           (Responded \<lparr>status = 200,
              body = envelope n (page_of (req_query req))
                       (Math_ceil_div n (limit_of (req_query req))) (limit_of (req_query req))
                       (toLowerCase (sort_of (req_query req))) (map toJSON rows)\<rparr>, s2)"
proof (cases m)
  case Course
  then show ?thesis using assms
    by (simp add: getAll_def includeOptions_for_def getAllCourses_def try_catch_500_def
        await_def res_json_def envelope_def Let_def)
next
  case Teacher
  then show ?thesis using assms
    by (simp add: getAll_def includeOptions_for_def getAllTeachers_def try_catch_500_def
        await_def res_json_def envelope_def Let_def)
next
  case Student
  then show ?thesis using assms
    by (simp add: getAll_def includeOptions_for_def getAllStudents_def try_catch_500_def
        await_def res_json_def envelope_def Let_def)
qed

lemma getAll_count_throws:
  assumes "db_count db m s = (Inl err, s1)"
  shows "getAll m db req s =
           (Responded \<lparr>status = 500, body = JObj [(''error'', JStr (message err))]\<rparr>, s1)"
  using assms
  by (cases m)
     (simp_all add: getAll_def getAllCourses_def getAllTeachers_def getAllStudents_def
        try_catch_500_def await_def Let_def)

lemma getAll_findAll_throws:
  assumes "db_count db m s = (Inr n, s1)"
    and "db_findAll db m
           \<lparr>opt_include = includeOptions_for m (q_populate (req_query req)),
            opt_limit = limit_of (req_query req),
            opt_offset = (page_of (req_query req) - 1) * limit_of (req_query req),
            opt_order = (''createdAt'', sort_of (req_query req))\<rparr> s1 = (Inl err, s2)"
  shows "getAll m db req s =
           (Responded \<lparr>status = 500, body = JObj [(''error'', JStr (message err))]\<rparr>, s2)"
  using assms
  by (cases m)
     (simp_all add: getAll_def includeOptions_for_def getAllCourses_def getAllTeachers_def
        getAllStudents_def try_catch_500_def await_def Let_def)

subsection \<open>The list handlers on the in-memory store\<close>



lemma column_key_createdAt: "column_key ''createdAt'' = Some createdAt"
  by (simp add: column_key_def)

lemma getAll_memdb:
  assumes "0 \<le> limit_of (req_query req)"
    and "0 \<le> (page_of (req_query req) - 1) * limit_of (req_query req)"
  shows "getAll m (memdb ld) req s =
           (Responded \<lparr>status = 200,
              body = envelope (int (length (table m s))) (page_of (req_query req))
                       (Math_ceil_div (int (length (table m s))) (limit_of (req_query req)))
                       (limit_of (req_query req))
                       (toLowerCase (sort_of (req_query req)))
                       (map toJSON (page_rows ld m req s))\<rparr>, s)"
proof (rule getAll_ok)
  show "db_count (memdb ld) m s = (Inr (int (length (table m s))), s)"
    by (simp add: memdb_simps mem_count_def)
  show "db_findAll (memdb ld) m
           \<lparr>opt_include = includeOptions_for m (q_populate (req_query req)),
            opt_limit = limit_of (req_query req),
            opt_offset = (page_of (req_query req) - 1) * limit_of (req_query req),
            opt_order = (''createdAt'', sort_of (req_query req))\<rparr> s = (Inr (page_rows ld m req s), s)"
    using assms by (simp add: memdb_simps mem_findAll_def page_rows_def column_key_createdAt)
qed

lemma getAll_memdb_rejected:
  assumes "limit_of (req_query req) < 0 \<or> (page_of (req_query req) - 1) * limit_of (req_query req) < 0"
  shows "getAll m (memdb ld) req s =
           (Responded \<lparr>status = 500, body = JObj [(''error'', JStr ''negative LIMIT or OFFSET'')]\<rparr>, s)"
proof -
  have "getAll m (memdb ld) req s =
           (Responded \<lparr>status = 500, body = JObj [(''error'', JStr (message (Error ''negative LIMIT or OFFSET'')))]\<rparr>, s)"
  proof (rule getAll_findAll_throws)
    show "db_count (memdb ld) m s = (Inr (int (length (table m s))), s)"
      by (simp add: memdb_simps mem_count_def)
    show "db_findAll (memdb ld) m
           \<lparr>opt_include = includeOptions_for m (q_populate (req_query req)),
            opt_limit = limit_of (req_query req),
            opt_offset = (page_of (req_query req) - 1) * limit_of (req_query req),
            opt_order = (''createdAt'', sort_of (req_query req))\<rparr> s = (Inl (Error ''negative LIMIT or OFFSET''), s)"
      using assms by (simp add: memdb_simps mem_findAll_def)
  qed
  then show ?thesis by simp
qed


text \<open>
  Claim C4. In every list response (status 200) with limit at least 1, the
  envelope's \<open>totalPages\<close> is the ceiling of \<open>totalItems / limit\<close>, where
  \<open>totalItems\<close> is the number of rows of the resource's table; when the
  table is empty, \<open>totalPages\<close> is 0 and \<open>data\<close> is the empty list.
\<close>

theorem totalPages_is_ceiling:
  assumes "1 \<le> limit_of (req_query req)"
    and "getAll m (memdb ld) req s = (Responded r, s')"
    and "status r = 200"
  shows "\<exists>data.
           body r = envelope (int (length (table m s))) (page_of (req_query req))
                      \<lceil>real (length (table m s)) / real_of_int (limit_of (req_query req))\<rceil>
                      (limit_of (req_query req)) (toLowerCase (sort_of (req_query req))) data \<and>
           (table m s = [] \<longrightarrow>
              \<lceil>real (length (table m s)) / real_of_int (limit_of (req_query req))\<rceil> = 0 \<and> data = [])"
proof -
  let ?q = "req_query req"
  have lim: "0 \<le> limit_of ?q" using assms(1) by simp
  have off: "0 \<le> (page_of ?q - 1) * limit_of ?q"
  proof (rule ccontr)
    assume "\<not> 0 \<le> (page_of ?q - 1) * limit_of ?q"
    then have "limit_of ?q < 0 \<or> (page_of ?q - 1) * limit_of ?q < 0" by simp
    from getAll_memdb_rejected [OF this, of m ld s] assms(2,3) show False by simp
  qed
  have c: "Math_ceil_div (int (length (table m s))) (limit_of ?q) =
           \<lceil>real (length (table m s)) / real_of_int (limit_of ?q)\<rceil>"
    by (simp add: Math_ceil_div_ceiling)
  have b: "body r = envelope (int (length (table m s))) (page_of ?q)
                      \<lceil>real (length (table m s)) / real_of_int (limit_of ?q)\<rceil>
                      (limit_of ?q) (toLowerCase (sort_of ?q)) (map toJSON (page_rows ld m req s))"
    using getAll_memdb [OF lim off, of m ld s] assms(2) c by auto
  have e: "map toJSON (page_rows ld m req s) = []" if "table m s = []"
    using that by (simp add: page_rows_def ordered_def)
  show ?thesis using b e by auto
qed


text \<open>
  The second page of two of three courses, newest first, is the oldest
  course, also when the ids are not in the order of the timestamps.
\<close>

lemma second_page_example:
  "getAll Course (memdb null_loader) second_page_of_two three_courses =
   (Responded \<lparr>status = 200,
      body = envelope 3 2 2 2 ''desc''
               [JObj [(''id'', JNum 1), (''title'', JStr ''Algebra''), (''createdAt'', JNum 10)]]\<rparr>,
    three_courses)"
  by code_simp

lemma second_page_out_of_order_example:
  "getAll Course (memdb null_loader) second_page_of_two courses_out_of_order =
   (Responded \<lparr>status = 200,
      body = envelope 3 2 2 2 ''desc''
               [JObj [(''id'', JNum 2), (''title'', JStr ''Biology''), (''createdAt'', JNum 10)]]\<rparr>,
    courses_out_of_order)"
  by code_simp

theorem totalPages_is_ceiling_witness:
  "1 \<le> limit_of (req_query second_page_of_two) \<and>
   getAll Course (memdb null_loader) second_page_of_two three_courses =
     (Responded \<lparr>status = 200,
        body = envelope 3 2 2 2 ''desc''
                 [JObj [(''id'', JNum 1), (''title'', JStr ''Algebra''), (''createdAt'', JNum 10)]]\<rparr>,
      three_courses) \<and>
   (\<exists>data.
      envelope 3 2 2 2 ''desc''
        [JObj [(''id'', JNum 1), (''title'', JStr ''Algebra''), (''createdAt'', JNum 10)]] =
      envelope (int (length (table Course three_courses))) (page_of (req_query second_page_of_two))
        \<lceil>real (length (table Course three_courses)) / real_of_int (limit_of (req_query second_page_of_two))\<rceil>
        (limit_of (req_query second_page_of_two)) (toLowerCase (sort_of (req_query second_page_of_two))) data) \<and>
   1 \<le> limit_of (req_query plain_request) \<and>
   table Student empty_store = [] \<and>
   getAll Student (memdb null_loader) plain_request empty_store =
     (Responded \<lparr>status = 200, body = envelope 0 1 0 10 ''desc'' []\<rparr>, empty_store) \<and>
   (\<exists>data.
      envelope 0 1 0 10 ''desc'' [] =
      envelope (int (length (table Student empty_store))) (page_of (req_query plain_request))
        \<lceil>real (length (table Student empty_store)) / real_of_int (limit_of (req_query plain_request))\<rceil>
        (limit_of (req_query plain_request)) (toLowerCase (sort_of (req_query plain_request))) data \<and>
      \<lceil>real (length (table Student empty_store)) / real_of_int (limit_of (req_query plain_request))\<rceil> = 0 \<and>
      data = [])"
proof -
  have l: "1 \<le> limit_of (req_query second_page_of_two)" by code_simp
  have g: "getAll Course (memdb null_loader) second_page_of_two three_courses =
     (Responded \<lparr>status = 200,
        body = envelope 3 2 2 2 ''desc''
                 [JObj [(''id'', JNum 1), (''title'', JStr ''Algebra''), (''createdAt'', JNum 10)]]\<rparr>,
      three_courses)"
    by code_simp
  have l': "1 \<le> limit_of (req_query plain_request)" by code_simp
  have e: "table Student empty_store = []" by code_simp
  have g': "getAll Student (memdb null_loader) plain_request empty_store =
     (Responded \<lparr>status = 200, body = envelope 0 1 0 10 ''desc'' []\<rparr>, empty_store)"
    by code_simp
  from totalPages_is_ceiling [OF l g] have x: "\<exists>data.
      envelope 3 2 2 2 ''desc''
        [JObj [(''id'', JNum 1), (''title'', JStr ''Algebra''), (''createdAt'', JNum 10)]] =
      envelope (int (length (table Course three_courses))) (page_of (req_query second_page_of_two))
        \<lceil>real (length (table Course three_courses)) / real_of_int (limit_of (req_query second_page_of_two))\<rceil>
        (limit_of (req_query second_page_of_two)) (toLowerCase (sort_of (req_query second_page_of_two))) data"
    by auto
  from totalPages_is_ceiling [OF l' g'] e have y: "\<exists>data.
      envelope 0 1 0 10 ''desc'' [] =
      envelope (int (length (table Student empty_store))) (page_of (req_query plain_request))
        \<lceil>real (length (table Student empty_store)) / real_of_int (limit_of (req_query plain_request))\<rceil>
        (limit_of (req_query plain_request)) (toLowerCase (sort_of (req_query plain_request))) data \<and>
      \<lceil>real (length (table Student empty_store)) / real_of_int (limit_of (req_query plain_request))\<rceil> = 0 \<and>
      data = []"
    by auto
  show ?thesis by (intro conjI l g x l' e g' y)
qed

section \<open>Updates\<close>

lemma withIncluded_none: "withIncluded ld m s [] r = r"
  by (simp add: withIncluded_def)

lemma table_set_table:
  "table m (set_table m rows s) = rows"
  "m' \<noteq> m \<Longrightarrow> table m' (set_table m rows s) = table m' s"
  "Users (set_table m rows s) = Users s"
  by (cases m; cases m'; simp add: table_def set_table_def)+

lemma find_replaced:
  assumes "inst_id new = pk"
  shows "find (\<lambda>r. inst_id r = j) (map (\<lambda>x. if inst_id x = pk then new else x) rows) =
         (if j = pk then map_option (\<lambda>_. new) (find (\<lambda>r. inst_id r = pk) rows)
          else find (\<lambda>r. inst_id r = j) rows)"
  using assms by (induction rows) auto

lemma updateById_memdb:
  "updateById m (memdb ld) req s =
     (case find (\<lambda>r. inst_id r = params_id req) (table m s) of
        None \<Rightarrow> (Responded \<lparr>status = 404, body = JObj [(''message'', JStr ''Not found'')]\<rparr>, s)
      | Some old \<Rightarrow>
          (Responded \<lparr>status = 200,
             body = toJSON (old\<lparr>dataValues := AList.merge (dataValues old) (req_body req)\<rparr>)\<rparr>,
           set_table m
             (map (\<lambda>x. if inst_id x = inst_id old
                        then old\<lparr>dataValues := AList.merge (dataValues old) (req_body req)\<rparr> else x)
                (table m s)) s))"
  by (cases m)
     (simp_all add: updateById_def updateCourse_def updateTeacher_def updateStudent_def
        try_catch_500_def await_def res_json_def memdb_def mem_findByPk_def mem_update_def
        withIncluded_none Let_def option.map_ident split: option.splits)

text \<open>
  Claim C8. An update of a Course, Teacher or Student whose id is not in
  the table answers 404 and leaves the store as it is. Otherwise it answers
  200 with the updated record: the record keeps its id and creation
  timestamp, every field named in the body has the body's value, every
  other field has its previous value, and nothing else in the store
  changes (the other records of the table, the other tables, the users).
  (The persistence layer is the in-memory store.)
\<close>

theorem update_merges_the_named_fields:
  "(find (\<lambda>r. inst_id r = params_id req) (table m s) = None \<longrightarrow>
      updateById m (memdb ld) req s =
        (Responded \<lparr>status = 404, body = JObj [(''message'', JStr ''Not found'')]\<rparr>, s)) \<and>
   (find (\<lambda>r. inst_id r = params_id req) (table m s) = Some old \<longrightarrow>
      (\<exists>new s'.
         updateById m (memdb ld) req s = (Responded \<lparr>status = 200, body = toJSON new\<rparr>, s') \<and>
         inst_id new = inst_id old \<and> createdAt new = createdAt old \<and>
         (\<forall>k. map_of (dataValues new) k =
                (case map_of (req_body req) k of
                   Some v \<Rightarrow> Some v
                 | None \<Rightarrow> map_of (dataValues old) k)) \<and>
         find (\<lambda>r. inst_id r = params_id req) (table m s') = Some new \<and>
         (\<forall>j. j \<noteq> params_id req \<longrightarrow>
                find (\<lambda>r. inst_id r = j) (table m s') = find (\<lambda>r. inst_id r = j) (table m s)) \<and>
         length (table m s') = length (table m s) \<and>
         (\<forall>m'. m' \<noteq> m \<longrightarrow> table m' s' = table m' s) \<and>
         Users s' = Users s))"
proof (intro conjI impI)
  assume "find (\<lambda>r. inst_id r = params_id req) (table m s) = None"
  then show "updateById m (memdb ld) req s =
        (Responded \<lparr>status = 404, body = JObj [(''message'', JStr ''Not found'')]\<rparr>, s)"
    by (simp add: updateById_memdb)
next
  assume f: "find (\<lambda>r. inst_id r = params_id req) (table m s) = Some old"
  define new where "new = old\<lparr>dataValues := AList.merge (dataValues old) (req_body req)\<rparr>"
  define s' where
    "s' = set_table m (map (\<lambda>x. if inst_id x = inst_id old then new else x) (table m s)) s"
  have pk: "inst_id old = params_id req" using f by (auto simp: find_Some_iff)
  have idn: "inst_id new = params_id req" using pk by (simp add: new_def)
  have 1: "updateById m (memdb ld) req s = (Responded \<lparr>status = 200, body = toJSON new\<rparr>, s')"
    unfolding new_def s'_def using f by (simp add: updateById_memdb)
  have 2: "inst_id new = inst_id old" "createdAt new = createdAt old" by (simp_all add: new_def)
  have 3: "\<forall>k. map_of (dataValues new) k =
                (case map_of (req_body req) k of
                   Some v \<Rightarrow> Some v
                 | None \<Rightarrow> map_of (dataValues old) k)"
    by (simp add: new_def merge_conv' map_add_def)
  have t: "table m s' = map (\<lambda>x. if inst_id x = params_id req then new else x) (table m s)"
    by (simp add: s'_def table_set_table pk)
  have 4: "find (\<lambda>r. inst_id r = params_id req) (table m s') = Some new"
    using f by (simp add: t find_replaced [OF idn])
  have 5: "\<forall>j. j \<noteq> params_id req \<longrightarrow>
                find (\<lambda>r. inst_id r = j) (table m s') = find (\<lambda>r. inst_id r = j) (table m s)"
    by (simp add: t find_replaced [OF idn])
  have 6: "length (table m s') = length (table m s)" by (simp add: t)
  have 7: "\<forall>m'. m' \<noteq> m \<longrightarrow> table m' s' = table m' s" by (simp add: s'_def table_set_table)
  have 8: "Users s' = Users s" by (simp add: s'_def table_set_table)
  from 1 2 3 4 5 6 7 8
  show "\<exists>new s'.
         updateById m (memdb ld) req s = (Responded \<lparr>status = 200, body = toJSON new\<rparr>, s') \<and>
         inst_id new = inst_id old \<and> createdAt new = createdAt old \<and>
         (\<forall>k. map_of (dataValues new) k =
                (case map_of (req_body req) k of
                   Some v \<Rightarrow> Some v
                 | None \<Rightarrow> map_of (dataValues old) k)) \<and>
         find (\<lambda>r. inst_id r = params_id req) (table m s') = Some new \<and>
         (\<forall>j. j \<noteq> params_id req \<longrightarrow>
                find (\<lambda>r. inst_id r = j) (table m s') = find (\<lambda>r. inst_id r = j) (table m s)) \<and>
         length (table m s') = length (table m s) \<and>
         (\<forall>m'. m' \<noteq> m \<longrightarrow> table m' s' = table m' s) \<and>
         Users s' = Users s"
    by blast
qed

theorem update_merges_the_named_fields_witness:
  "find (\<lambda>r. inst_id r = params_id (rename_request 9)) (table Course three_courses) = None \<and>
   updateById Course (memdb null_loader) (rename_request 9) three_courses =
     (Responded \<lparr>status = 404, body = JObj [(''message'', JStr ''Not found'')]\<rparr>, three_courses) \<and>
   find (\<lambda>r. inst_id r = params_id (rename_request 2)) (table Course three_courses) =
     Some \<lparr>inst_id = 2, createdAt = 20, dataValues = [(''title'', JStr ''Biology'')]\<rparr> \<and>
   (\<exists>new s'.
      updateById Course (memdb null_loader) (rename_request 2) three_courses =
        (Responded \<lparr>status = 200, body = toJSON new\<rparr>, s') \<and>
      inst_id new = 2 \<and> createdAt new = 20 \<and>
      map_of (dataValues new) ''title'' = Some (JStr ''Botany'') \<and>
      find (\<lambda>r. inst_id r = 2) (table Course s') = Some new \<and>
      find (\<lambda>r. inst_id r = 1) (table Course s') = find (\<lambda>r. inst_id r = 1) (table Course three_courses) \<and>
      Users s' = Users three_courses)"
proof -
  let ?old = "\<lparr>inst_id = 2, createdAt = 20, dataValues = [(''title'', JStr ''Biology'')]\<rparr>"
  have n: "find (\<lambda>r. inst_id r = params_id (rename_request 9)) (table Course three_courses) = None"
    by code_simp
  have f: "find (\<lambda>r. inst_id r = params_id (rename_request 2)) (table Course three_courses) = Some ?old"
    by code_simp
  have p: "params_id (rename_request 2) = 2" "req_body (rename_request 2) = [(''title'', JStr ''Botany'')]"
    by (simp_all add: rename_request_def)
  from update_merges_the_named_fields [where req = "rename_request 9" and m = Course and s = three_courses and ld = null_loader] n
  have a: "updateById Course (memdb null_loader) (rename_request 9) three_courses =
     (Responded \<lparr>status = 404, body = JObj [(''message'', JStr ''Not found'')]\<rparr>, three_courses)"
    by blast
  from update_merges_the_named_fields [where req = "rename_request 2" and m = Course and s = three_courses and ld = null_loader and old = ?old] f
  obtain new s' where b:
    "updateById Course (memdb null_loader) (rename_request 2) three_courses =
        (Responded \<lparr>status = 200, body = toJSON new\<rparr>, s')"
    "inst_id new = inst_id ?old" "createdAt new = createdAt ?old"
    "\<forall>k. map_of (dataValues new) k =
                (case map_of (req_body (rename_request 2)) k of
                   Some v \<Rightarrow> Some v
                 | None \<Rightarrow> map_of (dataValues ?old) k)"
    "find (\<lambda>r. inst_id r = params_id (rename_request 2)) (table Course s') = Some new"
    "\<forall>j. j \<noteq> params_id (rename_request 2) \<longrightarrow>
                find (\<lambda>r. inst_id r = j) (table Course s') = find (\<lambda>r. inst_id r = j) (table Course three_courses)"
    "Users s' = Users three_courses"
    by blast
  have c: "map_of (dataValues new) ''title'' = Some (JStr ''Botany'')"
    using b(4) by (simp add: p)
  have d: "find (\<lambda>r. inst_id r = 1) (table Course s') = find (\<lambda>r. inst_id r = 1) (table Course three_courses)"
    using b(6) by (simp add: p)
  have e: "inst_id new = 2" "createdAt new = 20" "find (\<lambda>r. inst_id r = 2) (table Course s') = Some new"
    using b(2,3,5) by (simp_all add: p)
  show ?thesis using n a f b(1) c d e b(7) by blast
qed

section \<open>Registration and login\<close>

lemma register_memdb:
  "register (memdb ld) e name email password s =
     (case find (\<lambda>u. user_email u = email) (Users s) of
        Some _ \<Rightarrow>
          (Responded \<lparr>status = 400, body = JObj [(''message'', JStr ''Email already exists'')]\<rparr>, s)
      | None \<Rightarrow>
          (Responded \<lparr>status = 201,
             body = JObj [(''message'', JStr ''User registered successfully''),
                          (''user'', JObj [(''id'', JNum (nextId s)), (''email'', JStr email)])]\<rparr>,
           s\<lparr>Users := Users s @
                  [\<lparr>user_id = nextId s, user_name = name, user_email = email,
                    user_password = bcrypt_hash e password 10\<rparr>],
              nextId := nextId s + 1\<rparr>))"
  by (simp add: register_def no_catch_def await_def res_json_def memdb_def mem_User_findOne_def
      mem_User_create_def Let_def split: option.splits)

lemma login_memdb:
  "login (memdb ld) e email password s =
     (case find (\<lambda>u. user_email u = email) (Users s) of
        None \<Rightarrow> (Responded \<lparr>status = 404, body = JObj [(''message'', JStr ''User not found'')]\<rparr>, s)
      | Some user \<Rightarrow>
          if \<not> bcrypt_compare e password (user_password user) then
            (Responded \<lparr>status = 401, body = JObj [(''message'', JStr ''Invalid credentials'')]\<rparr>, s)
          else
            (Responded \<lparr>status = 200,
               body = JObj [(''token'',
                             JStr (jwt_sign e
                                     (JObj [(''id'', JNum (user_id user)), (''email'', JStr (user_email user))])
                                     (SELECT e) ''1h'')),
                            (''user'', JObj [(''id'', JNum (user_id user)),
                                             (''email'', JStr (user_email user))])]\<rparr>, s))"
  by (simp add: login_def no_catch_def await_def res_json_def memdb_def mem_User_findOne_def
      Let_def split: option.splits)

text \<open>
  Claim C5. \<open>register(name, email, password)\<close>: when a user with that
  email exists, the answer is 400 with a message and the store is
  unchanged. Otherwise one user is added, with the given name and email and
  with the output of \<open>bcrypt.hash(password, 10)\<close> as its password, and the
  answer is 201 with a body that holds a message and, of the user, the id
  and the email only. The hashing library is a parameter; that its output
  differs from the plaintext is the property of the library the claim
  relies on, and is the hypothesis here. (The persistence layer is the
  in-memory store.)
\<close>

theorem register_conflict_or_hashed_user:
  assumes "bcrypt_hash e password 10 \<noteq> password"
  shows "(find (\<lambda>u. user_email u = email) (Users s) \<noteq> None \<longrightarrow>
            register (memdb ld) e name email password s =
              (Responded \<lparr>status = 400, body = JObj [(''message'', JStr ''Email already exists'')]\<rparr>, s)) \<and>
         (find (\<lambda>u. user_email u = email) (Users s) = None \<longrightarrow>
            (\<exists>u. register (memdb ld) e name email password s =
                    (Responded \<lparr>status = 201,
                       body = JObj [(''message'', JStr ''User registered successfully''),
                                    (''user'', JObj [(''id'', JNum (user_id u)),
                                                     (''email'', JStr (user_email u))])]\<rparr>,
                     s\<lparr>Users := Users s @ [u], nextId := nextId s + 1\<rparr>) \<and>
                  user_name u = name \<and> user_email u = email \<and>
                  user_password u = bcrypt_hash e password 10 \<and>
                  user_password u \<noteq> password))"
proof (intro conjI impI)
  assume "find (\<lambda>u. user_email u = email) (Users s) \<noteq> None"
  then show "register (memdb ld) e name email password s =
              (Responded \<lparr>status = 400, body = JObj [(''message'', JStr ''Email already exists'')]\<rparr>, s)"
    by (auto simp: register_memdb)
next
  assume n: "find (\<lambda>u. user_email u = email) (Users s) = None"
  let ?u = "\<lparr>user_id = nextId s, user_name = name, user_email = email,
             user_password = bcrypt_hash e password 10\<rparr>"
  have "register (memdb ld) e name email password s =
          (Responded \<lparr>status = 201,
             body = JObj [(''message'', JStr ''User registered successfully''),
                          (''user'', JObj [(''id'', JNum (user_id ?u)),
                                           (''email'', JStr (user_email ?u))])]\<rparr>,
           s\<lparr>Users := Users s @ [?u], nextId := nextId s + 1\<rparr>)"
    using n by (simp add: register_memdb)
  moreover have "user_name ?u = name" "user_email ?u = email"
    "user_password ?u = bcrypt_hash e password 10" "user_password ?u \<noteq> password"
    using assms by simp_all
  ultimately show "\<exists>u. register (memdb ld) e name email password s =
                    (Responded \<lparr>status = 201,
                       body = JObj [(''message'', JStr ''User registered successfully''),
                                    (''user'', JObj [(''id'', JNum (user_id u)),
                                                     (''email'', JStr (user_email u))])]\<rparr>,
                     s\<lparr>Users := Users s @ [u], nextId := nextId s + 1\<rparr>) \<and>
                  user_name u = name \<and> user_email u = email \<and>
                  user_password u = bcrypt_hash e password 10 \<and>
                  user_password u \<noteq> password"
    by blast
qed

text \<open>
  Claim C6. \<open>login(email, password)\<close>: 404 when no user has the email;
  401 when the user exists and \<open>bcrypt.compare\<close> rejects the password
  against the stored hash; otherwise 200 with the token that
  \<open>jwt.sign\<close> returns for the payload \<open>{id, email}\<close>, the process-wide
  secret and the expiry \<open>1h\<close>, together with \<open>{id, email}\<close> of the
  user. The secret is the environment's \<open>JWT_SECRET\<close>, or the fallback
  when that is unset or empty. The store is never changed. (The
  persistence layer is the in-memory store.)
\<close>

theorem login_outcomes:
  "(find (\<lambda>u. user_email u = email) (Users s) = None \<longrightarrow>
      login (memdb ld) e email password s =
        (Responded \<lparr>status = 404, body = JObj [(''message'', JStr ''User not found'')]\<rparr>, s)) \<and>
   (find (\<lambda>u. user_email u = email) (Users s) = Some u \<and>
    \<not> bcrypt_compare e password (user_password u) \<longrightarrow>
      login (memdb ld) e email password s =
        (Responded \<lparr>status = 401, body = JObj [(''message'', JStr ''Invalid credentials'')]\<rparr>, s)) \<and>
   (find (\<lambda>u. user_email u = email) (Users s) = Some u \<and>
    bcrypt_compare e password (user_password u) \<longrightarrow>
      login (memdb ld) e email password s =
        (Responded \<lparr>status = 200,
           body = JObj [(''token'',
                         JStr (jwt_sign e
                                 (JObj [(''id'', JNum (user_id u)), (''email'', JStr (user_email u))])
                                 (SELECT e) ''1h'')),
                        (''user'', JObj [(''id'', JNum (user_id u)),
                                         (''email'', JStr (user_email u))])]\<rparr>, s)) \<and>
   SELECT e = (case JWT_SECRET e of None \<Rightarrow> ''virak123'' | Some v \<Rightarrow> if v = [] then ''virak123'' else v)"
proof (intro conjI impI)
  assume "find (\<lambda>u. user_email u = email) (Users s) = None"
  then show "login (memdb ld) e email password s =
        (Responded \<lparr>status = 404, body = JObj [(''message'', JStr ''User not found'')]\<rparr>, s)"
    by (simp add: login_memdb)
next
  assume "find (\<lambda>u. user_email u = email) (Users s) = Some u \<and>
    \<not> bcrypt_compare e password (user_password u)"
  then show "login (memdb ld) e email password s =
        (Responded \<lparr>status = 401, body = JObj [(''message'', JStr ''Invalid credentials'')]\<rparr>, s)"
    by (simp add: login_memdb)
next
  assume "find (\<lambda>u. user_email u = email) (Users s) = Some u \<and>
    bcrypt_compare e password (user_password u)"
  then show "login (memdb ld) e email password s =
        (Responded \<lparr>status = 200,
           body = JObj [(''token'',
                         JStr (jwt_sign e
                                 (JObj [(''id'', JNum (user_id u)), (''email'', JStr (user_email u))])
                                 (SELECT e) ''1h'')),
                        (''user'', JObj [(''id'', JNum (user_id u)),
                                         (''email'', JStr (user_email u))])]\<rparr>, s)"
    by (simp add: login_memdb)
next
  show "SELECT e = (case JWT_SECRET e of None \<Rightarrow> ''virak123'' | Some v \<Rightarrow> if v = [] then ''virak123'' else v)"
    by (simp add: SELECT_def)
qed

theorem register_conflict_or_hashed_user_witness:
  "bcrypt_hash toy_env ''secret'' 10 \<noteq> ''secret'' \<and>
   find (\<lambda>u. user_email u = ''ana@x.com'') (Users ana_registered) \<noteq> None \<and>
   register (memdb null_loader) toy_env ''Ana'' ''ana@x.com'' ''secret'' ana_registered =
     (Responded \<lparr>status = 400, body = JObj [(''message'', JStr ''Email already exists'')]\<rparr>, ana_registered) \<and>
   find (\<lambda>u. user_email u = ''ana@x.com'') (Users empty_store) = None \<and>
   (\<exists>u. register (memdb null_loader) toy_env ''Ana'' ''ana@x.com'' ''secret'' empty_store =
           (Responded \<lparr>status = 201,
              body = JObj [(''message'', JStr ''User registered successfully''),
                           (''user'', JObj [(''id'', JNum (user_id u)),
                                            (''email'', JStr (user_email u))])]\<rparr>,
            empty_store\<lparr>Users := Users empty_store @ [u], nextId := nextId empty_store + 1\<rparr>) \<and>
         user_name u = ''Ana'' \<and> user_email u = ''ana@x.com'' \<and>
         user_password u = bcrypt_hash toy_env ''secret'' 10 \<and>
         user_password u \<noteq> ''secret'')"
proof -
  have h: "bcrypt_hash toy_env ''secret'' 10 \<noteq> ''secret''" by (simp add: toy_env_def)
  have a: "find (\<lambda>u. user_email u = ''ana@x.com'') (Users ana_registered) \<noteq> None"
    by (simp add: ana_registered_def ana_def)
  have b: "find (\<lambda>u. user_email u = ''ana@x.com'') (Users empty_store) = None"
    by (simp add: empty_store_def)
  from register_conflict_or_hashed_user [OF h, of "''ana@x.com''" ana_registered null_loader "''Ana''"] a
  have c: "register (memdb null_loader) toy_env ''Ana'' ''ana@x.com'' ''secret'' ana_registered =
     (Responded \<lparr>status = 400, body = JObj [(''message'', JStr ''Email already exists'')]\<rparr>, ana_registered)"
    by blast
  from register_conflict_or_hashed_user [OF h, of "''ana@x.com''" empty_store null_loader "''Ana''"] b
  have d: "\<exists>u. register (memdb null_loader) toy_env ''Ana'' ''ana@x.com'' ''secret'' empty_store =
           (Responded \<lparr>status = 201,
              body = JObj [(''message'', JStr ''User registered successfully''),
                           (''user'', JObj [(''id'', JNum (user_id u)),
                                            (''email'', JStr (user_email u))])]\<rparr>,
            empty_store\<lparr>Users := Users empty_store @ [u], nextId := nextId empty_store + 1\<rparr>) \<and>
         user_name u = ''Ana'' \<and> user_email u = ''ana@x.com'' \<and>
         user_password u = bcrypt_hash toy_env ''secret'' 10 \<and>
         user_password u \<noteq> ''secret''"
    by blast
  show ?thesis by (intro conjI h a b c d)
qed

theorem login_outcomes_witness:
  "find (\<lambda>u. user_email u = ''bob@x.com'') (Users ana_registered) = None \<and>
   login (memdb null_loader) toy_env ''bob@x.com'' ''secret'' ana_registered =
     (Responded \<lparr>status = 404, body = JObj [(''message'', JStr ''User not found'')]\<rparr>, ana_registered) \<and>
   find (\<lambda>u. user_email u = ''ana@x.com'') (Users ana_registered) = Some ana \<and>
   \<not> bcrypt_compare toy_env ''guess'' (user_password ana) \<and>
   login (memdb null_loader) toy_env ''ana@x.com'' ''guess'' ana_registered =
     (Responded \<lparr>status = 401, body = JObj [(''message'', JStr ''Invalid credentials'')]\<rparr>, ana_registered) \<and>
   bcrypt_compare toy_env ''secret'' (user_password ana) \<and>
   login (memdb null_loader) toy_env ''ana@x.com'' ''secret'' ana_registered =
     (Responded \<lparr>status = 200,
        body = JObj [(''token'',
                      JStr (jwt_sign toy_env
                              (JObj [(''id'', JNum (user_id ana)), (''email'', JStr (user_email ana))])
                              (SELECT toy_env) ''1h'')),
                     (''user'', JObj [(''id'', JNum (user_id ana)),
                                      (''email'', JStr (user_email ana))])]\<rparr>, ana_registered)"
proof -
  have a: "find (\<lambda>u. user_email u = ''bob@x.com'') (Users ana_registered) = None"
    by (simp add: ana_registered_def ana_def)
  have b: "find (\<lambda>u. user_email u = ''ana@x.com'') (Users ana_registered) = Some ana"
    by (simp add: ana_registered_def ana_def)
  have c: "\<not> bcrypt_compare toy_env ''guess'' (user_password ana)"
    by (simp add: toy_env_def ana_def)
  have d: "bcrypt_compare toy_env ''secret'' (user_password ana)"
    by (simp add: toy_env_def ana_def)
  note t1 = login_outcomes [where email = "''bob@x.com''" and s = ana_registered and ld = null_loader
      and e = toy_env and password = "''secret''"]
  note t2 = login_outcomes [where email = "''ana@x.com''" and s = ana_registered and ld = null_loader
      and e = toy_env and password = "''guess''" and u = ana]
  note t3 = login_outcomes [where email = "''ana@x.com''" and s = ana_registered and ld = null_loader
      and e = toy_env and password = "''secret''" and u = ana]
  have r1: "login (memdb null_loader) toy_env ''bob@x.com'' ''secret'' ana_registered =
     (Responded \<lparr>status = 404, body = JObj [(''message'', JStr ''User not found'')]\<rparr>, ana_registered)"
    using t1 a by blast
  have r2: "login (memdb null_loader) toy_env ''ana@x.com'' ''guess'' ana_registered =
     (Responded \<lparr>status = 401, body = JObj [(''message'', JStr ''Invalid credentials'')]\<rparr>, ana_registered)"
    using t2 b c by blast
  have r3: "login (memdb null_loader) toy_env ''ana@x.com'' ''secret'' ana_registered =
     (Responded \<lparr>status = 200,
        body = JObj [(''token'',
                      JStr (jwt_sign toy_env
                              (JObj [(''id'', JNum (user_id ana)), (''email'', JStr (user_email ana))])
                              (SELECT toy_env) ''1h'')),
                     (''user'', JObj [(''id'', JNum (user_id ana)),
                                      (''email'', JStr (user_email ana))])]\<rparr>, ana_registered)"
    using t3 b d by blast
  show ?thesis by (intro conjI a b c d r1 r2 r3)
qed

section \<open>Errors of the persistence layer\<close>

lemma await_throws: "m s = (Inl err, s1) \<Longrightarrow> await m f s = (Inl err, s1)"
  by (simp add: await_def)

lemma await_returns: "m s = (Inr x, s1) \<Longrightarrow> await m f s = f x s1"
  by (simp add: await_def)

lemma try_catch_500_catches:
  "m s = (Inl err, s1) \<Longrightarrow>
   try_catch_500 m s = (Responded \<lparr>status = 500, body = JObj [(''error'', JStr (message err))]\<rparr>, s1)"
  by (simp add: try_catch_500_def)

lemma try_catch_500_responds: "\<exists>r s1. try_catch_500 m s = (Responded r, s1)"
  by (cases "m s") (auto simp: try_catch_500_def split: sum.splits)

lemma no_catch_rejects: "m s = (Inl err, s1) \<Longrightarrow> no_catch m s = (Rejected err, s1)"
  by (simp add: no_catch_def)

text \<open>
  Every handler of the course, teacher and student controllers sends a
  response, whatever the persistence layer does.
\<close>

lemma crud_handlers_always_respond:
  "\<exists>r s1. createCourse db req s = (Responded r, s1)"
  "\<exists>r s1. getAllCourses db req s = (Responded r, s1)"
  "\<exists>r s1. getCourseById db req s = (Responded r, s1)"
  "\<exists>r s1. updateCourse db req s = (Responded r, s1)"
  "\<exists>r s1. deleteCourse db req s = (Responded r, s1)"
  "\<exists>r s1. createTeacher db req s = (Responded r, s1)"
  "\<exists>r s1. getAllTeachers db req s = (Responded r, s1)"
  "\<exists>r s1. getTeacherById db req s = (Responded r, s1)"
  "\<exists>r s1. updateTeacher db req s = (Responded r, s1)"
  "\<exists>r s1. deleteTeacher db req s = (Responded r, s1)"
  "\<exists>r s1. createStudent db req s = (Responded r, s1)"
  "\<exists>r s1. getAllStudents db req s = (Responded r, s1)"
  "\<exists>r s1. getStudentById db req s = (Responded r, s1)"
  "\<exists>r s1. updateStudent db req s = (Responded r, s1)"
  "\<exists>r s1. deleteStudent db req s = (Responded r, s1)"
  unfolding createCourse_def getAllCourses_def getCourseById_def updateCourse_def deleteCourse_def
    createTeacher_def getAllTeachers_def getTeacherById_def updateTeacher_def deleteTeacher_def
    createStudent_def getAllStudents_def getStudentById_def updateStudent_def deleteStudent_def
  by (rule try_catch_500_responds)+

text \<open>
  When the first call of the persistence layer throws, each of them answers
  500 with the message of the error.
\<close>

lemma crud_handlers_catch:
  "db_create db Course (req_body req) s = (Inl err, s1) \<Longrightarrow>
     createCourse db req s = (Responded (internal_error err), s1)"
  "db_count db Course s = (Inl err, s1) \<Longrightarrow>
     getAllCourses db req s = (Responded (internal_error err), s1)"
  "db_findByPk db Course (params_id req) (course_includeOptions (q_populate (req_query req))) s = (Inl err, s1) \<Longrightarrow>
     getCourseById db req s = (Responded (internal_error err), s1)"
  "db_findByPk db Course (params_id req) [] s = (Inl err, s1) \<Longrightarrow>
     updateCourse db req s = (Responded (internal_error err), s1)"
  "db_findByPk db Course (params_id req) [] s = (Inl err, s1) \<Longrightarrow>
     deleteCourse db req s = (Responded (internal_error err), s1)"
  "db_create db Teacher (req_body req) s = (Inl err, s1) \<Longrightarrow>
     createTeacher db req s = (Responded (internal_error err), s1)"
  "db_count db Teacher s = (Inl err, s1) \<Longrightarrow>
     getAllTeachers db req s = (Responded (internal_error err), s1)"
  "db_findByPk db Teacher (params_id req) (teacher_includeOptions (q_populate (req_query req))) s = (Inl err, s1) \<Longrightarrow>
     getTeacherById db req s = (Responded (internal_error err), s1)"
  "db_findByPk db Teacher (params_id req) [] s = (Inl err, s1) \<Longrightarrow>
     updateTeacher db req s = (Responded (internal_error err), s1)"
  "db_findByPk db Teacher (params_id req) [] s = (Inl err, s1) \<Longrightarrow>
     deleteTeacher db req s = (Responded (internal_error err), s1)"
  "db_create db Student (req_body req) s = (Inl err, s1) \<Longrightarrow>
     createStudent db req s = (Responded (internal_error err), s1)"
  "db_count db Student s = (Inl err, s1) \<Longrightarrow>
     getAllStudents db req s = (Responded (internal_error err), s1)"
  "db_findByPk db Student (params_id req) (student_includeOptions (q_populate (req_query req))) s = (Inl err, s1) \<Longrightarrow>
     getStudentById db req s = (Responded (internal_error err), s1)"
  "db_findByPk db Student (params_id req) [] s = (Inl err, s1) \<Longrightarrow>
     updateStudent db req s = (Responded (internal_error err), s1)"
  "db_findByPk db Student (params_id req) [] s = (Inl err, s1) \<Longrightarrow>
     deleteStudent db req s = (Responded (internal_error err), s1)"
  by (simp_all add: createCourse_def getAllCourses_def getCourseById_def updateCourse_def deleteCourse_def
    createTeacher_def getAllTeachers_def getTeacherById_def updateTeacher_def deleteTeacher_def
    createStudent_def getAllStudents_def getStudentById_def updateStudent_def deleteStudent_def
    try_catch_500_def await_def Let_def internal_error_def)

text \<open>
  The same holds when the second call throws: the write that follows a
  successful fetch in the update and delete handlers (for the list
  handlers, the fetch that follows the count).
\<close>

lemma crud_handlers_catch_the_write:
  "db_findByPk db Course (params_id req) [] s = (Inr (Some row), s1) \<Longrightarrow>
   db_update db Course row (req_body req) s1 = (Inl err, s2) \<Longrightarrow>
     updateCourse db req s = (Responded (internal_error err), s2)"
  "db_findByPk db Course (params_id req) [] s = (Inr (Some row), s1) \<Longrightarrow>
   db_destroy db Course row s1 = (Inl err, s2) \<Longrightarrow>
     deleteCourse db req s = (Responded (internal_error err), s2)"
  "db_findByPk db Teacher (params_id req) [] s = (Inr (Some row), s1) \<Longrightarrow>
   db_update db Teacher row (req_body req) s1 = (Inl err, s2) \<Longrightarrow>
     updateTeacher db req s = (Responded (internal_error err), s2)"
  "db_findByPk db Teacher (params_id req) [] s = (Inr (Some row), s1) \<Longrightarrow>
   db_destroy db Teacher row s1 = (Inl err, s2) \<Longrightarrow>
     deleteTeacher db req s = (Responded (internal_error err), s2)"
  "db_findByPk db Student (params_id req) [] s = (Inr (Some row), s1) \<Longrightarrow>
   db_update db Student row (req_body req) s1 = (Inl err, s2) \<Longrightarrow>
     updateStudent db req s = (Responded (internal_error err), s2)"
  "db_findByPk db Student (params_id req) [] s = (Inr (Some row), s1) \<Longrightarrow>
   db_destroy db Student row s1 = (Inl err, s2) \<Longrightarrow>
     deleteStudent db req s = (Responded (internal_error err), s2)"
  by (simp_all add: updateCourse_def deleteCourse_def updateTeacher_def deleteTeacher_def
    updateStudent_def deleteStudent_def try_catch_500_def await_def internal_error_def)

text \<open>The auth handlers have no \<open>try\<close>: the error of the first call escapes them.\<close>

lemma auth_handlers_do_not_catch:
  "User_findOne db email s = (Inl err, s1) \<Longrightarrow> register db e name email password s = (Rejected err, s1)"
  "User_findOne db email s = (Inl err, s1) \<Longrightarrow> login db e email password s = (Rejected err, s1)"
  "User_findAll db [''id'', ''name'', ''email''] s = (Inl err, s1) \<Longrightarrow> getAllUsers db s = (Rejected err, s1)"
  by (simp_all add: register_def login_def getAllUsers_def no_catch_def await_def)

text \<open>
  Claim C1 at a failing input: the persistence layer has lost its
  connection and every call throws. The three auth handlers send nothing:
  the error rejects their promise. A handler of the other controllers
  (here \<open>createTeacher\<close>) answers 500 with the message.
\<close>

theorem auth_handlers_let_the_error_escape:
  "register (failing_db (Error ''connect ECONNREFUSED'')) toy_env ''Ana'' ''ana@x.com'' ''secret'' () =
     (Rejected (Error ''connect ECONNREFUSED''), ()) \<and>
   login (failing_db (Error ''connect ECONNREFUSED'')) toy_env ''ana@x.com'' ''secret'' () =
     (Rejected (Error ''connect ECONNREFUSED''), ()) \<and>
   getAllUsers (failing_db (Error ''connect ECONNREFUSED'')) () =
     (Rejected (Error ''connect ECONNREFUSED''), ()) \<and>
   createTeacher (failing_db (Error ''connect ECONNREFUSED'')) plain_request () =
     (Responded \<lparr>status = 500, body = JObj [(''error'', JStr ''connect ECONNREFUSED'')]\<rparr>, ())"
  by (simp add: register_def login_def getAllUsers_def createTeacher_def no_catch_def
      try_catch_500_def await_def failing_db_def)

text \<open>
  Every response that a handler sends has one of the statuses 200, 201,
  400, 401, 404 and 500, whatever the persistence layer does.
\<close>

lemma course_statuses:
  "createCourse db req s = (Responded r, s1) \<Longrightarrow> status r \<in> {201, 500}"
  "getAllCourses db req s = (Responded r, s1) \<Longrightarrow> status r \<in> {200, 500}"
  "getCourseById db req s = (Responded r, s1) \<Longrightarrow> status r \<in> {200, 404, 500}"
  "updateCourse db req s = (Responded r, s1) \<Longrightarrow> status r \<in> {200, 404, 500}"
  "deleteCourse db req s = (Responded r, s1) \<Longrightarrow> status r \<in> {200, 404, 500}"
  by (auto simp: createCourse_def getAllCourses_def getCourseById_def updateCourse_def deleteCourse_def
      try_catch_500_def await_def res_json_def Let_def
      split: prod.splits sum.splits option.splits)

lemma teacher_statuses:
  "createTeacher db req s = (Responded r, s1) \<Longrightarrow> status r \<in> {201, 500}"
  "getAllTeachers db req s = (Responded r, s1) \<Longrightarrow> status r \<in> {200, 500}"
  "getTeacherById db req s = (Responded r, s1) \<Longrightarrow> status r \<in> {200, 404, 500}"
  "updateTeacher db req s = (Responded r, s1) \<Longrightarrow> status r \<in> {200, 404, 500}"
  "deleteTeacher db req s = (Responded r, s1) \<Longrightarrow> status r \<in> {200, 404, 500}"
  by (auto simp: createTeacher_def getAllTeachers_def getTeacherById_def updateTeacher_def deleteTeacher_def
      try_catch_500_def await_def res_json_def Let_def
      split: prod.splits sum.splits option.splits)

lemma student_statuses:
  "createStudent db req s = (Responded r, s1) \<Longrightarrow> status r \<in> {201, 500}"
  "getAllStudents db req s = (Responded r, s1) \<Longrightarrow> status r \<in> {200, 500}"
  "getStudentById db req s = (Responded r, s1) \<Longrightarrow> status r \<in> {200, 404, 500}"
  "updateStudent db req s = (Responded r, s1) \<Longrightarrow> status r \<in> {200, 404, 500}"
  "deleteStudent db req s = (Responded r, s1) \<Longrightarrow> status r \<in> {200, 404, 500}"
  by (auto simp: createStudent_def getAllStudents_def getStudentById_def updateStudent_def deleteStudent_def
      try_catch_500_def await_def res_json_def Let_def
      split: prod.splits sum.splits option.splits)

lemma auth_statuses:
  "register db e name email password s = (Responded r, s1) \<Longrightarrow> status r \<in> {201, 400}"
  "login db e email password s = (Responded r, s1) \<Longrightarrow> status r \<in> {200, 401, 404}"
  "getAllUsers db s = (Responded r, s1) \<Longrightarrow> status r = 200"
  by (auto simp: register_def login_def getAllUsers_def no_catch_def await_def res_json_def Let_def
      split: prod.splits sum.splits option.splits if_splits)

text \<open>
  Claim C7 at a failing input: a course id that is not in the store. The
  404 body of \<open>getCourseById\<close> has the one key \<open>messsage\<close>, so neither
  \<open>message\<close> nor \<open>error\<close>; the same request to \<open>getTeacherById\<close>
  has the key \<open>message\<close>.
\<close>

theorem getCourseById_not_found_body:
  "getCourseById (memdb null_loader) plain_request empty_store =
     (Responded \<lparr>status = 404, body = JObj [(''messsage'', JStr ''Not found'')]\<rparr>, empty_store) \<and>
   ''message'' \<notin> set (keys (JObj [(''messsage'', JStr ''Not found'')])) \<and>
   ''error'' \<notin> set (keys (JObj [(''messsage'', JStr ''Not found'')])) \<and>
   getTeacherById (memdb null_loader) plain_request empty_store =
     (Responded \<lparr>status = 404, body = JObj [(''message'', JStr ''Not found'')]\<rparr>, empty_store)"
  by code_simp

section \<open>Populate values outside the whitelist\<close>

lemma includeOptions_for_values:
  "includeOptions_for Course p =
     (if ''teacher'' \<in> set (populate_values p) then [Teacher] else []) @
     (if ''student'' \<in> set (populate_values p) then [Student] else [])"
  "includeOptions_for Teacher p = (if ''courses'' \<in> set (populate_values p) then [Course] else [])"
  "includeOptions_for Student p = (if ''courses'' \<in> set (populate_values p) then [Course] else [])"
  by (cases p; simp add: includeOptions_for_def course_includeOptions_def teacher_includeOptions_def
      student_includeOptions_def populate_values_def Let_def)+

lemma includeOptions_for_whitelist:
  "M \<in> set (includeOptions_for m p) \<longleftrightarrow> (\<exists>v\<in>set (populate_values p). (v, M) \<in> set (whitelist m))"
  by (cases m) (auto simp: includeOptions_for_values whitelist_def)

lemma includeOptions_for_cong:
  assumes "\<forall>w\<in>fst ` set (whitelist m). w \<in> set (populate_values p) \<longleftrightarrow> w \<in> set (populate_values p')"
  shows "includeOptions_for m p = includeOptions_for m p'"
  using assms by (cases m) (simp_all add: includeOptions_for_values whitelist_def)

lemma handlers_populate:
  assumes "includeOptions_for m p = includeOptions_for m p'"
  shows "getAll m db (with_populate req p) s = getAll m db (with_populate req p') s"
    and "getById m db (with_populate req p) s = getById m db (with_populate req p') s"
proof -
  show "getAll m db (with_populate req p) s = getAll m db (with_populate req p') s"
    using assms course_handlers_populate [of p p' db req s]
      teacher_handlers_populate [of p p' db req s] student_handlers_populate [of p p' db req s]
    by (cases m) (simp_all add: getAll_def includeOptions_for_def)
  show "getById m db (with_populate req p) s = getById m db (with_populate req p') s"
    using assms course_handlers_populate [of p p' db req s]
      teacher_handlers_populate [of p p' db req s] student_handlers_populate [of p p' db req s]
    by (cases m) (simp_all add: getById_def includeOptions_for_def)
qed

lemma populate_values_None: "populate_values None = []"
  by (simp add: populate_values_def)

lemma getById_memdb_found:
  assumes "find (\<lambda>r. inst_id r = params_id req) (table m s) = Some row"
  shows "getById m (memdb ld) req s =
           (Responded \<lparr>status = 200,
              body = toJSON (withIncluded ld m s (includeOptions_for m (q_populate (req_query req))) row)\<rparr>, s)"
  using assms
  by (cases m)
     (simp_all add: getById_def getCourseById_def getTeacherById_def getStudentById_def
        includeOptions_for_def try_catch_500_def await_def res_json_def memdb_def mem_findByPk_def Let_def)

text \<open>
  Claim C9. For the list and by-id handlers of a resource, a model is
  eager-loaded exactly when one of the comma-separated populate values is
  the whitelisted name of that model (Course: \<open>teacher\<close>, \<open>student\<close>;
  Teacher: \<open>courses\<close>; Student: \<open>courses\<close>). Values that are not on the
  whitelist are ignored: two populate parameters with the same whitelisted
  values give the same include options and the same outcome, whatever the
  persistence layer, and a parameter with no whitelisted value gives the
  outcome of a request without populate. On the in-memory store such a
  request succeeds with status 200: a list request with page and limit at
  least 1, and a by-id request for an id that is in the table.
\<close>

theorem unrecognised_populate_values_are_ignored:
  "(M \<in> set (includeOptions_for m p) \<longleftrightarrow>
      (\<exists>v\<in>set (populate_values p). (v, M) \<in> set (whitelist m))) \<and>
   (set (populate_values p) \<inter> fst ` set (whitelist m) =
    set (populate_values p') \<inter> fst ` set (whitelist m) \<longrightarrow>
      includeOptions_for m p = includeOptions_for m p' \<and>
      getAll m db (with_populate req p) s = getAll m db (with_populate req p') s \<and>
      getById m db (with_populate req p) s = getById m db (with_populate req p') s) \<and>
   (set (populate_values p) \<inter> fst ` set (whitelist m) = {} \<longrightarrow>
      includeOptions_for m p = [] \<and>
      getAll m db (with_populate req p) s = getAll m db (with_populate req None) s \<and>
      getById m db (with_populate req p) s = getById m db (with_populate req None) s) \<and>
   (1 \<le> page_of (req_query req) \<and> 1 \<le> limit_of (req_query req) \<longrightarrow>
      (\<exists>r. getAll m (memdb ld) (with_populate req p) st = (Responded r, st) \<and> status r = 200)) \<and>
   (find (\<lambda>r. inst_id r = params_id req) (table m st) \<noteq> None \<longrightarrow>
      (\<exists>r. getById m (memdb ld) (with_populate req p) st = (Responded r, st) \<and> status r = 200))"
proof (intro conjI impI)
  show "M \<in> set (includeOptions_for m p) \<longleftrightarrow>
      (\<exists>v\<in>set (populate_values p). (v, M) \<in> set (whitelist m))"
    by (rule includeOptions_for_whitelist)
next
  assume "set (populate_values p) \<inter> fst ` set (whitelist m) =
          set (populate_values p') \<inter> fst ` set (whitelist m)"
  then have a: "\<forall>w\<in>fst ` set (whitelist m). w \<in> set (populate_values p) \<longleftrightarrow> w \<in> set (populate_values p')"
    by blast
  show e: "includeOptions_for m p = includeOptions_for m p'"
    using a by (rule includeOptions_for_cong)
  show "getAll m db (with_populate req p) s = getAll m db (with_populate req p') s"
    by (rule handlers_populate(1) [OF e])
  show "getById m db (with_populate req p) s = getById m db (with_populate req p') s"
    by (rule handlers_populate(2) [OF e])
next
  assume "set (populate_values p) \<inter> fst ` set (whitelist m) = {}"
  then have "\<forall>w\<in>fst ` set (whitelist m). w \<in> set (populate_values p) \<longleftrightarrow> w \<in> set (populate_values None)"
    by (auto simp: populate_values_None)
  then have e: "includeOptions_for m p = includeOptions_for m None"
    by (rule includeOptions_for_cong)
  have n: "includeOptions_for m None = []"
    by (cases m) (simp_all add: includeOptions_for_values populate_values_None)
  show "includeOptions_for m p = []" using e n by simp
  show "getAll m db (with_populate req p) s = getAll m db (with_populate req None) s"
    by (rule handlers_populate(1) [OF e])
  show "getById m db (with_populate req p) s = getById m db (with_populate req None) s"
    by (rule handlers_populate(2) [OF e])
next
  assume a: "1 \<le> page_of (req_query req) \<and> 1 \<le> limit_of (req_query req)"
  have "0 \<le> limit_of (req_query (with_populate req p))"
    and "0 \<le> (page_of (req_query (with_populate req p)) - 1) * limit_of (req_query (with_populate req p))"
    using a by (simp_all add: query_with_populate)
  from getAll_memdb [OF this, of m ld st]
  show "\<exists>r. getAll m (memdb ld) (with_populate req p) st = (Responded r, st) \<and> status r = 200"
    by simp
next
  assume "find (\<lambda>r. inst_id r = params_id req) (table m st) \<noteq> None"
  then obtain row where "find (\<lambda>r. inst_id r = params_id (with_populate req p)) (table m st) = Some row"
    by (auto simp: query_with_populate)
  from getById_memdb_found [OF this, of ld]
  show "\<exists>r. getById m (memdb ld) (with_populate req p) st = (Responded r, st) \<and> status r = 200"
    by simp
qed

theorem unrecognised_populate_values_are_ignored_witness:
  "Teacher \<in> set (includeOptions_for Course (Some ''teacher,foo'')) \<and>
   set (populate_values (Some ''teacher,foo'')) \<inter> fst ` set (whitelist Course) =
     set (populate_values (Some ''teacher'')) \<inter> fst ` set (whitelist Course) \<and>
   includeOptions_for Course (Some ''teacher,foo'') = includeOptions_for Course (Some ''teacher'') \<and>
   getAll Course (memdb null_loader) (with_populate second_page_of_two (Some ''teacher,foo'')) three_courses =
     getAll Course (memdb null_loader) (with_populate second_page_of_two (Some ''teacher'')) three_courses \<and>
   set (populate_values (Some ''foo,bar'')) \<inter> fst ` set (whitelist Student) = {} \<and>
   includeOptions_for Student (Some ''foo,bar'') = [] \<and>
   getAll Student (memdb null_loader) (with_populate second_page_of_two (Some ''foo,bar'')) three_courses =
     getAll Student (memdb null_loader) (with_populate second_page_of_two None) three_courses \<and>
   1 \<le> page_of (req_query second_page_of_two) \<and> 1 \<le> limit_of (req_query second_page_of_two) \<and>
   (\<exists>r. getAll Student (memdb null_loader) (with_populate second_page_of_two (Some ''foo,bar'')) three_courses =
          (Responded r, three_courses) \<and> status r = 200) \<and>
   find (\<lambda>r. inst_id r = params_id second_page_of_two) (table Course three_courses) \<noteq> None \<and>
   (\<exists>r. getById Course (memdb null_loader) (with_populate second_page_of_two (Some ''teacher,foo'')) three_courses =
          (Responded r, three_courses) \<and> status r = 200)"
proof -
  note t1 = unrecognised_populate_values_are_ignored [where m = Course and M = Teacher
      and p = "Some ''teacher,foo''" and p' = "Some ''teacher''" and db = "memdb null_loader"
      and req = second_page_of_two and s = three_courses and ld = null_loader and st = three_courses]
  note t2 = unrecognised_populate_values_are_ignored [where m = Student and M = Course
      and p = "Some ''foo,bar''" and p' = None and db = "memdb null_loader"
      and req = second_page_of_two and s = three_courses and ld = null_loader and st = three_courses]
  have v1: "populate_values (Some ''teacher,foo'') = [''teacher'', ''foo'']"
    and v2: "populate_values (Some ''teacher'') = [''teacher'']"
    and v3: "populate_values (Some ''foo,bar'') = [''foo'', ''bar'']"
    by (simp_all add: populate_values_def)
  have a: "Teacher \<in> set (includeOptions_for Course (Some ''teacher,foo''))"
    using t1 by (simp add: v1 whitelist_def)
  have b: "set (populate_values (Some ''teacher,foo'')) \<inter> fst ` set (whitelist Course) =
     set (populate_values (Some ''teacher'')) \<inter> fst ` set (whitelist Course)"
    by (simp add: v1 v2 whitelist_def)
  have c: "set (populate_values (Some ''foo,bar'')) \<inter> fst ` set (whitelist Student) = {}"
    by (simp add: v3 whitelist_def)
  have p: "1 \<le> page_of (req_query second_page_of_two)" "1 \<le> limit_of (req_query second_page_of_two)"
    by code_simp+
  have f: "find (\<lambda>r. inst_id r = params_id second_page_of_two) (table Course three_courses) \<noteq> None"
    by code_simp
  show ?thesis
    using t1 t2 a b c p f by blast
qed

end
